theory Spec2Isabelle
  imports Main "HOL-Library.Sublist"
begin

section \<open>Text primitives of the host language\<close>

text \<open>
  Text is modelled as \<^typ>\<open>string\<close>, a character being a code point from U+0000 to
  U+00FF, one code unit of the language's strings. On these code points the primitives
  are the language's own. \<open>toLowerCase\<close> maps the letters A-Z (65 to 90) and the accented
  capitals U+00C0 to U+00DE (192 to 222), the multiplication sign U+00D7 (215) apart, to
  the letters 32 places up, and leaves every other code point alone. \<open>trim\<close> strips white
  space and line terminators from both ends: tab, line feed, vertical tab, form feed,
  carriage return, space, and the no-break space U+00A0 (160).
\<close>

definition toLowerChar :: "char \<Rightarrow> char" where
  "toLowerChar c =
     (let n = (of_char c :: nat) in
      if 65 \<le> n \<and> n \<le> 90 then char_of (n + 32)
      else if n = 215 then c
      else if 192 \<le> n \<and> n \<le> 222 then char_of (n + 32)
      else c)"

definition toLowerCase :: "string \<Rightarrow> string" where
  "toLowerCase s = map toLowerChar s"

definition isWhiteSpace :: "char \<Rightarrow> bool" where
  "isWhiteSpace c = (of_char c \<in> {9, 10, 11, 12, 13, 32, 160 :: nat})"

definition trimStart :: "string \<Rightarrow> string" where
  "trimStart s = dropWhile isWhiteSpace s"

definition trimEnd :: "string \<Rightarrow> string" where
  "trimEnd s = rev (dropWhile isWhiteSpace (rev s))"

definition trim :: "string \<Rightarrow> string" where
  "trim s = trimEnd (trimStart s)"

text \<open>\<open>s.includes(sub)\<close>: \<open>sub\<close> occurs in \<open>s\<close> as a contiguous run of characters.\<close>

fun str_includes :: "string \<Rightarrow> string \<Rightarrow> bool" where
  "str_includes [] sub = (sub = [])"
| "str_includes (c # cs) sub = (prefix sub (c # cs) \<or> str_includes cs sub)"

text \<open>\<open>s.split(sep)\<close> for a one-character separator: never empty, \<open>"".split(",")\<close> is \<open>[""]\<close>.\<close>

fun str_split :: "char \<Rightarrow> string \<Rightarrow> string list" where
  "str_split sep [] = [[]]"
| "str_split sep (c # cs) =
     (if c = sep then [] # str_split sep cs
      else (case str_split sep cs of
              [] \<Rightarrow> [[c]]
            | w # ws \<Rightarrow> (c # w) # ws))"

text \<open>\<open>xs.join(sep)\<close>.\<close>

fun str_join :: "string \<Rightarrow> string list \<Rightarrow> string" where
  "str_join sep [] = []"
| "str_join sep [x] = x"
| "str_join sep (x # y # ys) = x @ sep @ str_join sep (y # ys)"

section \<open>JSON values\<close>

text \<open>
  What \<open>response.json()\<close> yields and what travels in messages. Numbers are modelled as
  integers (the service's numeric fields are integer percentages and scores). An object
  is the list of its properties, each key once.
\<close>

datatype json =
    JNull
  | JBool bool
  | JNum int
  | JStr string
  | JArr "json list"
  | JObj "(string \<times> json) list"

text \<open>Truthiness of a value, as \<open>!v\<close>, \<open>v || d\<close> and \<open>if (v)\<close> see it.\<close>

fun truthy :: "json \<Rightarrow> bool" where
  "truthy JNull = False"
| "truthy (JBool b) = b"
| "truthy (JNum n) = (n \<noteq> 0)"
| "truthy (JStr s) = (s \<noteq> [])"
| "truthy (JArr xs) = True"
| "truthy (JObj kvs) = True"

text \<open>Property read \<open>v.key\<close> on a parsed value: \<open>None\<close> is \<open>undefined\<close>.\<close>

fun get_field :: "json \<Rightarrow> string \<Rightarrow> json option" where
  "get_field (JObj kvs) key = map_of kvs key"
| "get_field v key = None"

text \<open>\<open>Array.isArray(v)\<close> on a possibly undefined value, with the elements when it holds.\<close>

fun as_array :: "json option \<Rightarrow> json list option" where
  "as_array (Some (JArr xs)) = Some xs"
| "as_array v = None"

section \<open>The page: document tree and locators\<close>

text \<open>
  The content script sees the page through \<open>document.querySelector\<close> (a locator string
  resolves to at most one element) and \<open>window.location.hostname\<close>. Elements are trees
  with their tag names in lowercase; \<open>textContent\<close> is the text of all descendants in
  document order.
\<close>

datatype node = Text string | Element string "node list"

fun textContent :: "node \<Rightarrow> string" where
  "textContent (Text s) = s"
| "textContent (Element tag kids) = concat (map textContent kids)"

fun subtree_elements :: "node \<Rightarrow> node list" where
  "subtree_elements (Text s) = []"
| "subtree_elements (Element tag kids) = Element tag kids # concat (map subtree_elements kids)"

text \<open>The elements below a node (the node itself excluded), in document order.\<close>

fun descendant_elements :: "node \<Rightarrow> node list" where
  "descendant_elements (Text s) = []"
| "descendant_elements (Element tag kids) = concat (map subtree_elements kids)"

fun tag_in :: "string list \<Rightarrow> node \<Rightarrow> bool" where
  "tag_in tags (Text s) = False"
| "tag_in tags (Element tag kids) = (tag \<in> set tags)"

text \<open>\<open>container.querySelectorAll('p, li, div')\<close>: every matching element below the container.\<close>

definition querySelectorAll_p_li_div :: "node \<Rightarrow> node list" where
  "querySelectorAll_p_li_div container =
     filter (tag_in [''p'', ''li'', ''div'']) (descendant_elements container)"

record document =
  hostname :: string
  querySelector :: "string \<Rightarrow> node option"

text \<open>
  \<open>tryQuerySelectors\<close> returns the value found (\<open>None\<close> is \<open>null\<close>) together with the
  locators it handed to \<open>document.querySelector\<close>, in the order of the calls.
\<close>

fun tryQuerySelectors :: "document \<Rightarrow> string list \<Rightarrow> string option \<times> string list" where
  "tryQuerySelectors doc [] = (None, [])"
| "tryQuerySelectors doc (selector # rest) =
     (case querySelector doc selector of
        Some element \<Rightarrow>
          if trim (textContent element) \<noteq> []
          then (Some (trim (textContent element)), [selector])
          else (case tryQuerySelectors doc rest of (r, q) \<Rightarrow> (r, selector # q))
      | None \<Rightarrow> (case tryQuerySelectors doc rest of (r, q) \<Rightarrow> (r, selector # q)))"

definition descriptionSelectors :: "string list" where
  \<open>descriptionSelectors =
     [''.jobs-description-content__text'',
      ''.jobs-box__html-content'',
      ''[data-job-description]'',
      ''#job-details'',
      ''.description__text'',
      ''[class*="job-details"]'',
      ''[class*="description"]'']\<close>

definition companySelectors :: "string list" where
  \<open>companySelectors =
     [''.jobs-unified-top-card__company-name'',
      ''.jobs-company__name'',
      ''[data-tracking-control-name*="company"]'',
      ''a[href*="/company/"]'',
      ''[class*="company"]'']\<close>

definition titleSelectors :: "string list" where
  \<open>titleSelectors =
     [''.jobs-unified-top-card__job-title'',
      ''.job-details-jobs-unified-top-card__job-title'',
      ''[class*="job-title"]'',
      ''h1'']\<close>

record job_details =
  description :: string
  company :: string
  title :: string

text \<open>\<open>v || d\<close> on a value that is \<open>null\<close> or a non-empty text.\<close>

fun or_default :: "string option \<Rightarrow> string \<Rightarrow> string" where
  "or_default None d = d"
| "or_default (Some v) d = (if v = [] then d else v)"

definition newline :: string where
  "newline = [CHR 0x0A]"

text \<open>
  \<open>extractJobDetails\<close>, again with the locators handed to \<open>document.querySelector\<close>.
  When the description locators fail and the container gives no line, control falls
  through to the final test, which fails because the description is \<open>null\<close>.
\<close>

definition extractJobDetails :: "document \<Rightarrow> job_details option \<times> string list" where
  "extractJobDetails doc =
     (if str_includes (hostname doc) ''linkedin.com'' then
        (case tryQuerySelectors doc descriptionSelectors of (jobDescription, q1) \<Rightarrow>
         case tryQuerySelectors doc companySelectors of (companyName, q2) \<Rightarrow>
         case tryQuerySelectors doc titleSelectors of (jobTitle, q3) \<Rightarrow>
           (case jobDescription of
              None \<Rightarrow>
                (case querySelector doc ''.jobs-description'' of
                   Some container \<Rightarrow>
                     (let paragraphs =
                            filter (\<lambda>t. t \<noteq> [])
                              (map (\<lambda>el. trim (textContent el)) (querySelectorAll_p_li_div container))
                      in if length paragraphs > 0
                         then (Some \<lparr>description = str_join newline paragraphs,
                                     company = or_default companyName ''Unknown Company'',
                                     title = or_default jobTitle ''Job Position''\<rparr>,
                               q1 @ q2 @ q3 @ [''.jobs-description''])
                         else (None, q1 @ q2 @ q3 @ [''.jobs-description'']))
                 | None \<Rightarrow> (None, q1 @ q2 @ q3 @ [''.jobs-description'']))
            | Some d \<Rightarrow>
                (case companyName of
                   Some c \<Rightarrow>
                     (Some \<lparr>description = d, company = c,
                            title = or_default jobTitle ''Job Position''\<rparr>,
                      q1 @ q2 @ q3)
                 | None \<Rightarrow> (None, q1 @ q2 @ q3))))
      else (None, []))"

section \<open>The popup: profile and persistent store\<close>

text \<open>
  \<open>chrome.storage.local\<close> holds the two keys the popup writes, always together. The
  \<open>userSkills\<close> key is absent until the first save.
\<close>

record storage_area =
  stored_userSkills :: "string list option"
  stored_profileSetup :: bool

text \<open>
  One entry of the element \<open>#skills-list\<close>: a removable tag of the profile display, or a
  line of the match report.
\<close>

datatype list_item = SkillTag string | MatchItem string | MissingItem string

text \<open>
  What the popup shows when a failure is surfaced: a message of the popup's own, or
  \<open>'Error processing job details: ' + error.message\<close> for an exception caught while the
  result is processed. The message texts of the engine's own exceptions are not part of
  the program.
\<close>

datatype js_exception = Error string | TypeError | RangeError

datatype shown_error = Message string | ProcessingError js_exception

text \<open>
  The popup: the global \<open>userSkills\<close>, the store, and the parts of its page that the
  handlers write. Values that the page shows after conversion to text are kept as
  values: \<open>match_percentage\<close> is followed by \<open>%\<close>, \<open>inclusion_number\<close> by \<open>/5\<close>,
  \<open>inclusion_stars\<close> counts the filled and the hollow stars, \<open>skill_hint\<close> is the count of
  the message \<open>Added n new skill(s)!\<close>. The two timers, which hide the error and restore
  the hint after some seconds, are left out.
\<close>

record popup =
  userSkills :: "string list"
  storage :: storage_area
  active_section :: string
  skill_input :: string
  skill_hint :: "nat option"
  skills_list :: "list_item list"
  error_message :: "shown_error option"
  match_percentage :: "json option"
  inclusion_number :: "int option"
  inclusion_stars :: "(nat \<times> nat) option"
  programs_list :: "json list option"

definition saveUserSkills :: "string list \<Rightarrow> storage_area \<Rightarrow> storage_area" where
  "saveUserSkills skills sa = sa\<lparr>stored_userSkills := Some skills, stored_profileSetup := True\<rparr>"

definition showSection :: "string \<Rightarrow> popup \<Rightarrow> popup" where
  "showSection sectionId p = p\<lparr>active_section := sectionId\<rparr>"

definition displayUserSkills :: "popup \<Rightarrow> popup" where
  "displayUserSkills p = p\<lparr>skills_list := map SkillTag (userSkills p)\<rparr>"

text \<open>The popup as it is before \<open>DOMContentLoaded\<close>, over a given store.\<close>

definition fresh_popup :: "storage_area \<Rightarrow> popup" where
  "fresh_popup sa =
     \<lparr>userSkills = [], storage = sa, active_section = [], skill_input = [],
      skill_hint = None, skills_list = [], error_message = None, match_percentage = None,
      inclusion_number = None, inclusion_stars = None, programs_list = None\<rparr>"

definition empty_storage :: storage_area where
  "empty_storage = \<lparr>stored_userSkills = None, stored_profileSetup = False\<rparr>"

text \<open>The \<open>DOMContentLoaded\<close> listener.\<close>

definition onDOMContentLoaded :: "popup \<Rightarrow> popup" where
  "onDOMContentLoaded p =
     (let p1 = (case stored_userSkills (storage p) of
                  Some skills \<Rightarrow> displayUserSkills (p\<lparr>userSkills := skills\<rparr>)
                | None \<Rightarrow> p)
      in if \<not> stored_profileSetup (storage p)
         then showSection ''profile-setup'' p1
         else displayUserSkills (showSection ''analysis-section'' p1))"

text \<open>\<open>newSkills\<close> of \<open>addSkills\<close>: split at commas, trim each piece, drop the empty ones.\<close>

definition newSkills :: "string \<Rightarrow> string list" where
  "newSkills skillsText =
     filter (\<lambda>skill. length skill > 0) (map trim (str_split CHR '','' skillsText))"

text \<open>One round of the \<open>forEach\<close> of \<open>addSkills\<close>, on the skill list and \<open>addedCount\<close>.\<close>

definition addStep :: "string list \<times> nat \<Rightarrow> string \<Rightarrow> string list \<times> nat" where
  "addStep acc skill =
     (case acc of (skills, addedCount) \<Rightarrow>
        if skill \<notin> set skills then (skills @ [skill], addedCount + 1) else (skills, addedCount))"

definition addSkills :: "popup \<Rightarrow> popup" where
  "addSkills p =
     (let skillsText = toLowerCase (trim (skill_input p)) in
      if skillsText = [] then p
      else (case foldl addStep (userSkills p, 0) (newSkills skillsText) of
              (skills, addedCount) \<Rightarrow>
                (displayUserSkills
                   (p\<lparr>userSkills := skills, storage := saveUserSkills skills (storage p)\<rparr>))
                \<lparr>skill_input := [],
                 skill_hint := (if addedCount > 0 then Some addedCount else skill_hint p)\<rparr>))"

text \<open>The user types \<open>text\<close> into the input and presses the add button.\<close>

definition submitSkills :: "string \<Rightarrow> popup \<Rightarrow> popup" where
  "submitSkills text p = addSkills (p\<lparr>skill_input := text\<rparr>)"

text \<open>
  The click listener of a remove control, \<open>skillToRemove\<close> being the value of its
  \<open>data-skill\<close> attribute.
\<close>

definition removeSkill :: "string \<Rightarrow> popup \<Rightarrow> popup" where
  "removeSkill skillToRemove p =
     displayUserSkills (p\<lparr>userSkills := filter (\<lambda>s. s \<noteq> skillToRemove) (userSkills p)\<rparr>)"

definition saveProfileClick :: "popup \<Rightarrow> popup" where
  "saveProfileClick p =
     showSection ''analysis-section'' (p\<lparr>storage := saveUserSkills (userSkills p) (storage p)\<rparr>)"

definition editProfileClick :: "popup \<Rightarrow> popup" where
  "editProfileClick p = showSection ''profile-setup'' p"

definition showError :: "shown_error \<Rightarrow> popup \<Rightarrow> popup" where
  "showError message p = p\<lparr>error_message := Some message\<rparr>"

definition clearError :: "popup \<Rightarrow> popup" where
  "clearError p = p\<lparr>error_message := None\<rparr>"

section \<open>The popup: match report\<close>

text \<open>
  \<open>analysisData.skills.map(s => s.toLowerCase())\<close>: an element that is not text has no
  such method, and the call throws.
\<close>

fun lowerAll :: "json list \<Rightarrow> js_exception + string list" where
  "lowerAll [] = Inr []"
| "lowerAll (JStr s # rest) =
     (case lowerAll rest of Inl e \<Rightarrow> Inl e | Inr ls \<Rightarrow> Inr (toLowerCase s # ls))"
| "lowerAll (v # rest) = Inl TypeError"

definition matchingSkills :: "string list \<Rightarrow> string list \<Rightarrow> string list" where
  "matchingSkills profileSkills jobSkills =
     filter (\<lambda>skill. list_ex (\<lambda>jobSkill. str_includes jobSkill (toLowerCase skill)) jobSkills)
       profileSkills"

definition missingSkills :: "string list \<Rightarrow> string list \<Rightarrow> string list" where
  "missingSkills profileSkills jobSkills =
     filter (\<lambda>skill. \<not> list_ex (\<lambda>userSkill.
                          str_includes (toLowerCase skill) (toLowerCase userSkill)) profileSkills)
       jobSkills"

text \<open>\<open>analysisData.matchPercentage || 0\<close>.\<close>

fun or_zero :: "json option \<Rightarrow> json" where
  "or_zero None = JNum 0"
| "or_zero (Some v) = (if truthy v then v else JNum 0)"

text \<open>
  The inclusion score: the number is written first; \<open>repeat\<close> then throws on a negative
  count, before the stars are written.
\<close>

fun renderInclusion :: "json option \<Rightarrow> popup \<Rightarrow> popup \<times> js_exception option" where
  "renderInclusion (Some (JNum n)) p =
     (let p1 = p\<lparr>inclusion_number := Some n\<rparr> in
      if n < 0 \<or> 5 - n < 0 then (p1, Some RangeError)
      else (p1\<lparr>inclusion_stars := Some (nat n, nat (5 - n))\<rparr>, None))"
| "renderInclusion v p = (p, None)"

fun renderPrograms :: "json option \<Rightarrow> popup \<Rightarrow> popup" where
  "renderPrograms (Some (JArr programs)) p = p\<lparr>programs_list := Some programs\<rparr>"
| "renderPrograms v p = p"

text \<open>
  The body of the \<open>try\<close> block: the popup as the statements that ran left it, and the
  exception if one was thrown.
\<close>

definition processAnalysis :: "json \<Rightarrow> popup \<Rightarrow> popup \<times> js_exception option" where
  "processAnalysis analysisData p =
     (case as_array (get_field analysisData ''skills'') of
        None \<Rightarrow> (p, Some (Error ''Invalid skills format from server''))
      | Some skills \<Rightarrow>
          (let matchPercent = or_zero (get_field analysisData ''matchPercentage'') in
           case lowerAll skills of
             Inl e \<Rightarrow> (p, Some e)
           | Inr jobSkills \<Rightarrow>
               (let p1 = p\<lparr>match_percentage := Some matchPercent,
                            skills_list :=
                              map MatchItem (matchingSkills (userSkills p) jobSkills)
                              @ map MissingItem (missingSkills (userSkills p) jobSkills)\<rparr>
                in case renderInclusion (get_field analysisData ''inclusionScore'') p1 of
                     (p2, Some e) \<Rightarrow> (p2, Some e)
                   | (p2, None) \<Rightarrow>
                       (renderPrograms (get_field analysisData ''supportPrograms'') p2, None))))"

section \<open>Messages between the three contexts\<close>

datatype message = Action string | Typed string job_details

text \<open>The object handed to \<open>sendResponse\<close>; an absent property is \<open>None\<close>.\<close>

record response =
  success :: "bool option"
  data :: "json option"
  error :: "string option"

text \<open>
  What the callback of \<open>sendMessage\<close> finds: \<open>chrome.runtime.lastError\<close> set, or a
  response, which may be \<open>undefined\<close>.
\<close>

datatype reply = LastError string | Reply "response option"

record analysis_request = job_details +
  skills :: "string list"

text \<open>How \<open>fetch\<close> settles: it rejects, or it resolves with a status and a body.\<close>

datatype fetch_outcome = NetworkFailure string | HttpResponse nat string

datatype effect =
    TabMessage message
  | PageQuery string
  | RuntimeMessage message
  | StorageRead
  | ServiceRequest analysis_request

text \<open>
  A listener's run: its return value (\<open>None\<close> is \<open>undefined\<close>), the arguments of its
  \<open>sendResponse\<close> calls in order, and what it did to the world outside.
\<close>

record handler_result =
  returned :: "bool option"
  responses :: "response list"
  effects :: "effect list"

definition ignored :: handler_result where
  "ignored = \<lparr>returned = None, responses = [], effects = []\<rparr>"

text \<open>
  The background listener. \<open>parse\<close> is \<open>response.json()\<close> on the body (\<open>Inl\<close> carries the
  message of its rejection), \<open>service\<close> is the analysis service behind \<open>fetch\<close>.
\<close>

definition backgroundOnMessage ::
  "(string \<Rightarrow> string + json) \<Rightarrow> (analysis_request \<Rightarrow> fetch_outcome) \<Rightarrow> storage_area
     \<Rightarrow> message \<Rightarrow> handler_result" where
  "backgroundOnMessage parse service sa request =
     (case request of
        Typed type details \<Rightarrow>
          if type = ''analyzeJob'' then
            (let requestData =
                   \<lparr>description = description details, company = company details,
                    title = title details,
                    skills = (case stored_userSkills sa of Some s \<Rightarrow> s | None \<Rightarrow> [])\<rparr>
             in \<lparr>returned = Some True,
                 responses =
                   (case service requestData of
                      NetworkFailure msg \<Rightarrow>
                        [\<lparr>success = Some False, data = None, error = Some msg\<rparr>]
                    | HttpResponse status body \<Rightarrow>
                        (case parse body of
                           Inl msg \<Rightarrow> [\<lparr>success = Some False, data = None, error = Some msg\<rparr>]
                         | Inr d \<Rightarrow> [\<lparr>success = Some True, data = Some d, error = None\<rparr>])),
                 effects = [StorageRead, ServiceRequest requestData]\<rparr>)
          else ignored
      | Action a \<Rightarrow> ignored)"

text \<open>\<open>response.error\<close> when it is truthy: a text that is not empty.\<close>

definition truthy_error :: "response \<Rightarrow> string option" where
  "truthy_error resp =
     (case error resp of
        Some e \<Rightarrow> if e \<noteq> [] then Some e else None
      | None \<Rightarrow> None)"

text \<open>The callback the content script gives to \<open>chrome.runtime.sendMessage\<close>.\<close>

definition onBackgroundResponse :: "reply \<Rightarrow> response list" where
  "onBackgroundResponse r =
     (case r of
        LastError msg \<Rightarrow>
          [\<lparr>success = None, data = None,
            error = Some (''Extension communication error: '' @ msg)\<rparr>]
      | Reply None \<Rightarrow>
          [\<lparr>success = None, data = None,
            error = Some ''Extension error: No response from background service.''\<rparr>]
      | Reply (Some resp) \<Rightarrow>
          (case truthy_error resp of
             Some e \<Rightarrow> [\<lparr>success = None, data = None, error = Some e\<rparr>]
           | None \<Rightarrow> [resp]))"

definition extraction_failed :: string where
  "extraction_failed =
     ''Could not find job details. Please make sure you're on a LinkedIn job posting page.''"

text \<open>
  The content-script listener. \<open>runtime\<close> is \<open>chrome.runtime.sendMessage\<close>: what the
  callback finds, and what happened at the other end.
\<close>

definition contentOnMessage ::
  "document \<Rightarrow> (message \<Rightarrow> reply \<times> effect list) \<Rightarrow> message \<Rightarrow> handler_result" where
  "contentOnMessage doc runtime request =
     (case request of
        Action a \<Rightarrow>
          if a = ''analyze'' then
            (case extractJobDetails doc of
               (None, q) \<Rightarrow>
                 \<lparr>returned = Some False,
                  responses = [\<lparr>success = None, data = None, error = Some extraction_failed\<rparr>],
                  effects = map PageQuery q\<rparr>
             | (Some jobDetails, q) \<Rightarrow>
                 (case runtime (Typed ''analyzeJob'' jobDetails) of
                    (r, fx) \<Rightarrow>
                      \<lparr>returned = Some True,
                       responses = onBackgroundResponse r,
                       effects = map PageQuery q @ RuntimeMessage (Typed ''analyzeJob'' jobDetails) # fx\<rparr>))
          else ignored
      | Typed type details \<Rightarrow> ignored)"

text \<open>
  The browser between a sender and a listener. On an open channel the listener runs and
  the first response reaches the callback; a listener that never responds leaves the
  callback with \<open>lastError\<close>. A channel may also have no receiving end (\<open>Failed\<close>) or hand
  the callback nothing at all (\<open>Silent\<close>); the listener does not run then.
\<close>

datatype channel = Open | Failed string | Silent

definition port_closed :: string where
  "port_closed = ''The message port closed before a response was received.''"

definition send :: "channel \<Rightarrow> handler_result \<Rightarrow> reply \<times> effect list" where
  "send ch res =
     (case ch of
        Open \<Rightarrow>
          (case responses res of
             [] \<Rightarrow> (LastError port_closed, effects res)
           | r # rest \<Rightarrow> (Reply (Some r), effects res))
      | Failed msg \<Rightarrow> (LastError msg, [])
      | Silent \<Rightarrow> (Reply None, []))"

text \<open>The callback the popup gives to \<open>chrome.tabs.sendMessage\<close>.\<close>

definition invalid_structure :: string where
  "invalid_structure = ''Invalid response structure from background script.''"

definition onAnalyzeResponse :: "reply \<Rightarrow> popup \<Rightarrow> popup" where
  "onAnalyzeResponse r p =
     (case r of
        LastError msg \<Rightarrow> showError (Message (''Error: '' @ msg)) p
      | Reply None \<Rightarrow>
          showError (Message ''No response from the page. Please refresh and try again.'') p
      | Reply (Some resp) \<Rightarrow>
          (case truthy_error resp of
             Some e \<Rightarrow> showError (Message e) p
           | None \<Rightarrow>
               (case data resp of
                  None \<Rightarrow> showError (Message invalid_structure) p
                | Some analysisData \<Rightarrow>
                    if \<not> truthy analysisData then showError (Message invalid_structure) p
                    else (case processAnalysis analysisData p of
                            (p1, Some e) \<Rightarrow> showError (ProcessingError e) p1
                          | (p1, None) \<Rightarrow> p1))))"

text \<open>Everything around one click on the analyze button.\<close>

record environment =
  tab_url :: "string option"
  page :: document
  tab_channel :: channel
  runtime_channel :: channel
  parse_json :: "string \<Rightarrow> string + json"
  service :: "analysis_request \<Rightarrow> fetch_outcome"

definition host_mismatch :: string where
  "host_mismatch = ''Please navigate to a LinkedIn job posting first.''"

text \<open>\<open>tabs[0]?.url?.includes('linkedin.com/jobs')\<close>; \<open>None\<close> is a missing tab or address.\<close>

fun url_recognized :: "string option \<Rightarrow> bool" where
  "url_recognized None = False"
| "url_recognized (Some url) = str_includes url ''linkedin.com/jobs''"

definition analyzeClick :: "environment \<Rightarrow> popup \<Rightarrow> popup \<times> effect list" where
  "analyzeClick env p =
     (let p0 = clearError p in
      if \<not> url_recognized (tab_url env) then (showError (Message host_mismatch) p0, [])
      else
        (case send (tab_channel env)
                (contentOnMessage (page env)
                   (\<lambda>m. send (runtime_channel env)
                          (backgroundOnMessage (parse_json env) (service env) (storage p0) m))
                   (Action ''analyze'')) of
           (r, fx) \<Rightarrow> (onAnalyzeResponse r p0, TabMessage (Action ''analyze'') # fx)))"

section \<open>Notions used to state the properties\<close>

text \<open>
  The entries of an input text, in the words of the specification: the comma-separated
  pieces, each trimmed and lowercased, the empty ones left out.
\<close>

definition entries :: "string \<Rightarrow> string list" where
  "entries text =
     filter (\<lambda>e. e \<noteq> []) (map (\<lambda>piece. toLowerCase (trim piece)) (str_split CHR '','' text))"

text \<open>A list without the repetitions of its elements, each kept where it first occurs.\<close>

fun first_occurrences :: "'a list \<Rightarrow> 'a list" where
  "first_occurrences [] = []"
| "first_occurrences (x # xs) = x # first_occurrences (filter (\<lambda>y. y \<noteq> x) xs)"

text \<open>
  The popups that can arise: the popup opens over the empty store of a fresh
  installation or over the store an earlier popup left, and every control may be used.
\<close>

inductive reachable :: "popup \<Rightarrow> bool" where
  opened: "reachable (onDOMContentLoaded (fresh_popup empty_storage))"
| reopened: "reachable p \<Longrightarrow> reachable (onDOMContentLoaded (fresh_popup (storage p)))"
| added: "reachable p \<Longrightarrow> reachable (submitSkills text p)"
| removed: "reachable p \<Longrightarrow> reachable (removeSkill skillToRemove p)"
| saved: "reachable p \<Longrightarrow> reachable (saveProfileClick p)"
| edited: "reachable p \<Longrightarrow> reachable (editProfileClick p)"
| analyzed: "reachable p \<Longrightarrow> reachable (fst (analyzeClick env p))"

text \<open>A skill list as the profile keeps it: lowercase entries, none twice.\<close>

definition normalized :: "string list \<Rightarrow> bool" where
  "normalized l = (distinct l \<and> list_all (\<lambda>s. toLowerCase s = s) l)"

text \<open>
  The invariant of the popup: the list in memory and the persisted list are normalized,
  and every skill in memory has been persisted.
\<close>

definition profile_inv :: "popup \<Rightarrow> bool" where
  "profile_inv p =
     (normalized (userSkills p) \<and>
      (case stored_userSkills (storage p) of
         None \<Rightarrow> userSkills p = []
       | Some l \<Rightarrow> normalized l \<and> list_all (\<lambda>s. s \<in> set l) (userSkills p)))"

text \<open>What a locator yields: the trimmed text of its element, when that is not empty.\<close>

definition locate :: "document \<Rightarrow> string \<Rightarrow> string option" where
  "locate doc selector =
     (case querySelector doc selector of
        Some element \<Rightarrow>
          if trim (textContent element) \<noteq> [] then Some (trim (textContent element)) else None
      | None \<Rightarrow> None)"

text \<open>
  The lines of the structural fallback as the code collects them, from every paragraph,
  list item and division below the container.
\<close>

definition fallback_lines :: "node \<Rightarrow> string list" where
  "fallback_lines container =
     filter (\<lambda>t. t \<noteq> []) (map (\<lambda>el. trim (textContent el)) (querySelectorAll_p_li_div container))"

text \<open>
  The same lines in the words of the specification, from the child nodes of the
  container only.
\<close>

fun child_nodes :: "node \<Rightarrow> node list" where
  "child_nodes (Text s) = []"
| "child_nodes (Element tag kids) = kids"

definition child_lines :: "node \<Rightarrow> string list" where
  "child_lines container =
     filter (\<lambda>t. t \<noteq> [])
       (map (\<lambda>el. trim (textContent el))
          (filter (tag_in [''p'', ''li'', ''div'']) (child_nodes container)))"

text \<open>
  A page of the recognized host on which the fallback is reached: the first element whose
  class contains \<open>description\<close> holds only white space, no other description locator
  matches, and the container (which that locator also matches, later in the document)
  is the given one. No company and no title is found.
\<close>

definition fallback_page :: "node \<Rightarrow> document" where
  \<open>fallback_page container =
     \<lparr>hostname = ''www.linkedin.com'',
      querySelector =
        [''[class*="description"]'' \<mapsto> Element ''div'' [Text '' ''],
         ''.jobs-description'' \<mapsto> container]\<rparr>\<close>

text \<open>
  An error response carries an error text, no data, and does not report success. The
  request that the background sends for given job details over a given store.
\<close>

definition is_error_response :: "response \<Rightarrow> bool" where
  "is_error_response r = (success r \<noteq> Some True \<and> error r \<noteq> None \<and> data r = None)"

definition request_for :: "job_details \<Rightarrow> storage_area \<Rightarrow> analysis_request" where
  "request_for details sa =
     \<lparr>description = description details, company = company details, title = title details,
      skills = (case stored_userSkills sa of Some s \<Rightarrow> s | None \<Rightarrow> [])\<rparr>"

section \<open>Facts about the text primitives\<close>

lemma toLowerChar_idem: "toLowerChar (toLowerChar c) = toLowerChar c"
  by (auto simp: toLowerChar_def Let_def)

lemma toLowerCase_idem: "toLowerCase (toLowerCase s) = toLowerCase s"
  by (simp add: toLowerCase_def toLowerChar_idem)

lemma of_char_toLowerChar:
  "(of_char (toLowerChar c) :: nat) =
     (if 65 \<le> (of_char c :: nat) \<and> (of_char c :: nat) \<le> 90 then of_char c + 32
      else if (of_char c :: nat) = 215 then of_char c
      else if 192 \<le> (of_char c :: nat) \<and> (of_char c :: nat) \<le> 222 then of_char c + 32
      else of_char c)"
  by (simp add: toLowerChar_def Let_def)

lemma toLowerChar_comma: "toLowerChar c = CHR '','' \<longleftrightarrow> c = CHR '',''"
proof -
  have "toLowerChar c = CHR '','' \<longleftrightarrow> (of_char (toLowerChar c) :: nat) = of_char CHR '',''"
    by (simp only: of_char_eq_iff)
  also have "\<dots> \<longleftrightarrow> (of_char c :: nat) = of_char CHR '',''"
    by (simp add: of_char_toLowerChar)
  also have "\<dots> \<longleftrightarrow> c = CHR '',''"
    by (simp only: of_char_eq_iff)
  finally show ?thesis .
qed

lemma isWhiteSpace_toLowerChar: "isWhiteSpace (toLowerChar c) = isWhiteSpace c"
  by (simp add: isWhiteSpace_def of_char_toLowerChar)

lemma isWhiteSpace_not_comma: "isWhiteSpace c \<Longrightarrow> c \<noteq> CHR '',''"
  by (auto simp: isWhiteSpace_def)

lemma str_split_not_Nil: "str_split sep s \<noteq> []"
  by (induction s) (auto split: list.splits)

lemma str_split_map:
  assumes "\<And>c. f c = sep \<longleftrightarrow> c = sep"
  shows "str_split sep (map f s) = map (map f) (str_split sep s)"
  using assms by (induction s) (auto split: list.splits simp: str_split_not_Nil)

lemma trim_toLowerCase: "trim (toLowerCase s) = toLowerCase (trim s)"
  by (simp add: trim_def trimStart_def trimEnd_def toLowerCase_def dropWhile_map rev_map
      comp_def isWhiteSpace_toLowerChar)

lemma str_split_no_sep: "sep \<notin> set s \<Longrightarrow> str_split sep s = [s]"
  by (induction s) auto

lemma str_join_Cons_Cons: "str_join sep ((c # w) # ws) = c # str_join sep (w # ws)"
  by (cases ws) simp_all

lemma str_join_Nil_Cons: "str_join sep ([] # w # ws) = sep @ str_join sep (w # ws)"
  by simp

lemma str_join_split: "str_join [sep] (str_split sep s) = s"
proof (induction s)
  case Nil
  show ?case by simp
next
  case (Cons c cs)
  obtain w ws where sp: "str_split sep cs = w # ws"
    using str_split_not_Nil [of sep cs] by (cases "str_split sep cs") auto
  show ?case using Cons.IH sp by (simp add: str_join_Cons_Cons str_join_Nil_Cons del: str_join.simps)
qed

lemma str_split_single: "str_split sep s = [w] \<Longrightarrow> w = s"
  using str_join_split [of sep s] by simp

lemma str_split_trimStart:
  "str_split CHR '','' (trimStart s) =
     trimStart (hd (str_split CHR '','' s)) # tl (str_split CHR '','' s)"
  by (induction s) (auto simp: trimStart_def str_split_not_Nil dest: isWhiteSpace_not_comma split: list.splits)

lemma trimEnd_Cons:
  "trimEnd (c # cs) = (if trimEnd cs = [] \<and> isWhiteSpace c then [] else c # trimEnd cs)"
  by (auto simp: trimEnd_def dropWhile_append)

lemma trimEnd_Nil [simp]: "trimEnd [] = []"
  by (simp add: trimEnd_def)

lemma trimEnd_Nil_iff: "trimEnd s = [] \<longleftrightarrow> (\<forall>c\<in>set s. isWhiteSpace c)"
  by (induction s) (auto simp: trimEnd_Cons trimEnd_def)

lemma str_split_trimEnd:
  "str_split CHR '','' (trimEnd s) =
     butlast (str_split CHR '','' s) @ [trimEnd (last (str_split CHR '','' s))]"
proof (induction s)
  case Nil
  show ?case by (simp add: trimEnd_def)
next
  case (Cons c cs)
  show ?case
  proof (cases "trimEnd cs = [] \<and> isWhiteSpace c")
    case True
    then have ws: "\<forall>x\<in>set (c # cs). isWhiteSpace x"
      by (simp add: trimEnd_Nil_iff)
    then have "CHR '','' \<notin> set (c # cs)"
      using isWhiteSpace_not_comma by blast
    then have "str_split CHR '','' (c # cs) = [c # cs]"
      by (rule str_split_no_sep)
    moreover have "trimEnd (c # cs) = []"
      using ws trimEnd_Nil_iff by blast
    ultimately show ?thesis by simp
  next
    case False
    then have te: "trimEnd (c # cs) = c # trimEnd cs"
      by (simp add: trimEnd_Cons)
    obtain w ws where sp: "str_split CHR '','' cs = w # ws"
      using str_split_not_Nil [of "CHR '',''" cs] by (cases "str_split CHR '','' cs") auto
    show ?thesis
    proof (cases "c = CHR '',''")
      case True
      then show ?thesis using te Cons.IH sp by simp
    next
      case nc: False
      show ?thesis
      proof (cases ws)
        case Nil
        with sp have "w = cs" by (simp add: str_split_single)
        with Nil show ?thesis using te Cons.IH sp nc False by (simp add: trimEnd_Cons)
      next
        case (Cons a list)
        then show ?thesis using te Cons.IH sp nc by simp
      qed
    qed
  qed
qed

lemma trim_trimStart: "trim (trimStart s) = trim s"
  by (simp add: trim_def trimStart_def)

lemma trimEnd_idem: "trimEnd (trimEnd s) = trimEnd s"
  by (induction s) (auto simp: trimEnd_Cons)

lemma trimStart_trimEnd: "trimStart (trimEnd s) = trimEnd (trimStart s)"
proof (induction s)
  case Nil
  show ?case by (simp add: trimStart_def)
next
  case (Cons c cs)
  show ?case
  proof (cases "isWhiteSpace c")
    case True
    have "trimStart (trimEnd (c # cs)) = trimStart (trimEnd cs)"
      using True by (simp add: trimEnd_Cons trimStart_def)
    then show ?thesis using True Cons.IH by (simp add: trimStart_def)
  next
    case False
    then show ?thesis by (simp add: trimStart_def trimEnd_Cons)
  qed
qed

lemma trim_trimEnd: "trim (trimEnd s) = trim s"
  by (simp add: trim_def trimStart_trimEnd trimEnd_idem)

lemma map_trim_split_trim:
  "map trim (str_split CHR '','' (trim s)) = map trim (str_split CHR '','' s)"
proof -
  obtain w ws where sp: "str_split CHR '','' s = w # ws"
    using str_split_not_Nil [of "CHR '',''" s] by (cases "str_split CHR '','' s") auto
  have "str_split CHR '','' (trim s) =
          butlast (trimStart w # ws) @ [trimEnd (last (trimStart w # ws))]"
    by (simp add: trim_def str_split_trimEnd str_split_trimStart sp)
  then show ?thesis
    by (cases ws rule: rev_cases) (simp_all add: sp trim_trimEnd trim_trimStart butlast_append)
qed

lemma newSkills_entries: "newSkills (toLowerCase (trim text)) = entries text"
proof -
  have "str_split CHR '','' (toLowerCase (trim text)) =
          map toLowerCase (str_split CHR '','' (trim text))"
    unfolding toLowerCase_def by (rule str_split_map) (rule toLowerChar_comma)
  then have "map trim (str_split CHR '','' (toLowerCase (trim text))) =
          map toLowerCase (map trim (str_split CHR '','' (trim text)))"
    by (simp add: trim_toLowerCase comp_def)
  then show ?thesis
    by (simp add: newSkills_def entries_def map_trim_split_trim comp_def)
qed

lemma trim_Nil_iff: "trim s = [] \<longleftrightarrow> (\<forall>c\<in>set s. isWhiteSpace c)"
proof -
  have "set s = set (takeWhile isWhiteSpace s) \<union> set (dropWhile isWhiteSpace s)"
    by (metis set_append takeWhile_dropWhile_id)
  then have "(\<forall>c\<in>set (dropWhile isWhiteSpace s). isWhiteSpace c) \<longleftrightarrow> (\<forall>c\<in>set s. isWhiteSpace c)"
    by (auto dest: set_takeWhileD)
  then show ?thesis
    by (simp add: trim_def trimStart_def trimEnd_Nil_iff)
qed

lemma entries_empty_text:
  assumes "trim text = []"
  shows "entries text = []"
proof -
  have ws: "\<forall>c\<in>set text. isWhiteSpace c"
    using assms by (simp add: trim_Nil_iff)
  then have "CHR '','' \<notin> set text"
    using isWhiteSpace_not_comma by blast
  then have "str_split CHR '','' text = [text]"
    by (rule str_split_no_sep)
  then show ?thesis
    using assms by (simp add: entries_def toLowerCase_def)
qed

lemma str_includes_sublist: "str_includes s sub \<longleftrightarrow> sublist sub s"
  by (induction s) (auto simp: sublist_Cons_right)

section \<open>The match report\<close>

lemma lowerAll_strings: "lowerAll (map JStr jobs) = Inr (map toLowerCase jobs)"
  by (induction jobs) simp_all

lemma renderInclusion_keeps_report:
  "skills_list (fst (renderInclusion v p)) = skills_list p"
  "match_percentage (fst (renderInclusion v p)) = match_percentage p"
  by (induction v p rule: renderInclusion.induct) (simp_all add: Let_def)

lemma renderPrograms_keeps_report:
  "skills_list (renderPrograms v p) = skills_list p"
  "match_percentage (renderPrograms v p) = match_percentage p"
  by (induction v p rule: renderPrograms.induct) simp_all

lemma processAnalysis_report:
  assumes "as_array (get_field analysisData ''skills'') = Some (map JStr jobs)"
  shows "skills_list (fst (processAnalysis analysisData p)) =
           map MatchItem (matchingSkills (userSkills p) (map toLowerCase jobs))
           @ map MissingItem (missingSkills (userSkills p) (map toLowerCase jobs))"
    and "match_percentage (fst (processAnalysis analysisData p)) =
           Some (or_zero (get_field analysisData ''matchPercentage''))"
proof -
  let ?p1 = "p\<lparr>match_percentage := Some (or_zero (get_field analysisData ''matchPercentage'')),
               skills_list :=
                 map MatchItem (matchingSkills (userSkills p) (map toLowerCase jobs))
                 @ map MissingItem (missingSkills (userSkills p) (map toLowerCase jobs))\<rparr>"
  obtain p2 e where r: "renderInclusion (get_field analysisData ''inclusionScore'') ?p1 = (p2, e)"
    by (cases "renderInclusion (get_field analysisData ''inclusionScore'') ?p1")
  have p2: "skills_list p2 = skills_list ?p1" "match_percentage p2 = match_percentage ?p1"
    using renderInclusion_keeps_report [of "get_field analysisData ''inclusionScore''" ?p1] r
    by simp_all
  have pa: "fst (processAnalysis analysisData p) =
      (case e of Some x \<Rightarrow> p2 | None \<Rightarrow> renderPrograms (get_field analysisData ''supportPrograms'') p2)"
    using assms r by (simp add: processAnalysis_def lowerAll_strings Let_def split: option.splits)
  show "skills_list (fst (processAnalysis analysisData p)) =
           map MatchItem (matchingSkills (userSkills p) (map toLowerCase jobs))
           @ map MissingItem (missingSkills (userSkills p) (map toLowerCase jobs))"
    using pa p2 by (cases e) (simp_all add: renderPrograms_keeps_report)
  show "match_percentage (fst (processAnalysis analysisData p)) =
           Some (or_zero (get_field analysisData ''matchPercentage''))"
    using pa p2 by (cases e) (simp_all add: renderPrograms_keeps_report)
qed

lemma matchingSkills_char:
  "matchingSkills us (map toLowerCase jobs) =
     filter (\<lambda>u. \<exists>j\<in>set jobs. sublist (toLowerCase u) (toLowerCase j)) us"
  by (simp add: matchingSkills_def list_ex_iff str_includes_sublist)

lemma missingSkills_char:
  "missingSkills us (map toLowerCase jobs) =
     map toLowerCase
       (filter (\<lambda>j. \<not> (\<exists>u\<in>set us. sublist (toLowerCase u) (toLowerCase j))) jobs)"
  by (simp add: missingSkills_def list_ex_iff str_includes_sublist toLowerCase_idem filter_map
      comp_def)

text \<open>
  C1. For every profile and every sequence of job skills (texts) that the service
  returns, the report that the popup renders lists, as matching, exactly the profile
  skills whose lowercase form occurs inside the lowercase form of some job skill, and, as
  missing, exactly the lowercased job skills inside which no lowercased profile skill
  occurs. With the profile \<open>python, sql\<close> and the job skills \<open>Python Developer, SQL Expert,
  Excel\<close> the matching skills are \<open>python, sql\<close> and the missing ones \<open>excel\<close>; with an
  empty profile every job skill is missing. Lowercasing reaches the accented letters: a
  stored skill \<open>ecole\<close> with U+00E9 as its first letter matches the job skill \<open>ECOLE\<close>
  with U+00C9 as its first letter.
\<close>

theorem match_report_categories:
  assumes "as_array (get_field analysisData ''skills'') = Some (map JStr jobs)"
  shows "skills_list (fst (processAnalysis analysisData p)) =
           map MatchItem
             (filter (\<lambda>u. \<exists>j\<in>set jobs. sublist (toLowerCase u) (toLowerCase j)) (userSkills p))
           @ map MissingItem
               (map toLowerCase
                  (filter (\<lambda>j. \<not> (\<exists>u\<in>set (userSkills p).
                                     sublist (toLowerCase u) (toLowerCase j))) jobs))
         \<and> matchingSkills [''python'', ''sql'']
              (map toLowerCase [''Python Developer'', ''SQL Expert'', ''Excel''])
             = [''python'', ''sql'']
         \<and> missingSkills [''python'', ''sql'']
              (map toLowerCase [''Python Developer'', ''SQL Expert'', ''Excel''])
             = [''excel'']
         \<and> missingSkills [] (map toLowerCase jobs) = map toLowerCase jobs
         \<and> matchingSkills [CHR 0xE9 # ''cole''] (map toLowerCase [CHR 0xC9 # ''COLE''])
             = [CHR 0xE9 # ''cole'']
         \<and> missingSkills [CHR 0xE9 # ''cole''] (map toLowerCase [CHR 0xC9 # ''COLE'']) = []"
proof -
  have ex4: "matchingSkills [CHR 0xE9 # ''cole''] (map toLowerCase [CHR 0xC9 # ''COLE''])
             = [CHR 0xE9 # ''cole'']"
    by code_simp
  have ex5: "missingSkills [CHR 0xE9 # ''cole''] (map toLowerCase [CHR 0xC9 # ''COLE'']) = []"
    by code_simp
  have ex1: "matchingSkills [''python'', ''sql'']
              (map toLowerCase [''Python Developer'', ''SQL Expert'', ''Excel''])
             = [''python'', ''sql'']"
    by code_simp
  have ex2: "missingSkills [''python'', ''sql'']
              (map toLowerCase [''Python Developer'', ''SQL Expert'', ''Excel''])
             = [''excel'']"
    by code_simp
  have ex3: "missingSkills [] (map toLowerCase jobs) = map toLowerCase jobs"
    by (simp add: missingSkills_def)
  show ?thesis
    using processAnalysis_report(1) [OF assms, of p] ex1 ex2 ex3 ex4 ex5
    by (simp only: matchingSkills_char missingSkills_char simp_thms)
qed

theorem match_report_categories_witness:
  "skills_list
     (fst (processAnalysis
             (JObj [(''skills'', JArr [JStr ''Python Developer'', JStr ''SQL Expert'', JStr ''Excel'']),
                    (''matchPercentage'', JNum 67)])
             ((fresh_popup empty_storage)\<lparr>userSkills := [''python'', ''sql'']\<rparr>)))
   = [MatchItem ''python'', MatchItem ''sql'', MissingItem ''excel'']"
proof -
  have a: "as_array (get_field
             (JObj [(''skills'', JArr [JStr ''Python Developer'', JStr ''SQL Expert'', JStr ''Excel'']),
                    (''matchPercentage'', JNum 67)]) ''skills'')
           = Some (map JStr [''Python Developer'', ''SQL Expert'', ''Excel''])"
    by simp
  have u: "userSkills ((fresh_popup empty_storage)\<lparr>userSkills := [''python'', ''sql'']\<rparr>)
           = [''python'', ''sql'']"
    by simp
  have m: "filter (\<lambda>u. \<exists>j\<in>set [''Python Developer'', ''SQL Expert'', ''Excel''].
                      sublist (toLowerCase u) (toLowerCase j)) [''python'', ''sql'']
           = [''python'', ''sql'']"
    unfolding matchingSkills_char [symmetric] by code_simp
  have n: "map toLowerCase
             (filter (\<lambda>j. \<not> (\<exists>u\<in>set [''python'', ''sql''].
                               sublist (toLowerCase u) (toLowerCase j)))
                [''Python Developer'', ''SQL Expert'', ''Excel''])
           = [''excel'']"
    unfolding missingSkills_char [symmetric] by code_simp
  show ?thesis
    using match_report_categories [OF a, of "(fresh_popup empty_storage)\<lparr>userSkills := [''python'', ''sql'']\<rparr>"]
    by (simp only: u m n) simp
qed

text \<open>
  C10. In the rendered report the matching entries are skills of the profile as they are
  stored, in the order of the profile, and the missing entries are the lowercase forms of
  job skills, in the order of the service's list: a stored skill \<open>Python\<close> is shown as
  \<open>Python\<close>, a job skill \<open>Excel\<close> as \<open>excel\<close>, and a job skill \<open>ECOLE\<close> with U+00C9 as
  its first letter as \<open>ecole\<close> with U+00E9.
\<close>

theorem report_entry_forms:
  assumes "as_array (get_field analysisData ''skills'') = Some (map JStr jobs)"
  shows "(\<exists>ms ns. skills_list (fst (processAnalysis analysisData p)) =
                    map MatchItem ms @ map MissingItem (map toLowerCase ns)
                  \<and> subseq ms (userSkills p) \<and> subseq ns jobs)
         \<and> matchingSkills [''Python''] (map toLowerCase [''Python Developer'', ''Excel''])
             = [''Python'']
         \<and> missingSkills [''Python''] (map toLowerCase [''Python Developer'', ''Excel''])
             = [''excel'']
         \<and> missingSkills [] (map toLowerCase [CHR 0xC9 # ''COLE'']) = [CHR 0xE9 # ''cole'']"
proof -
  have ex3: "missingSkills [] (map toLowerCase [CHR 0xC9 # ''COLE'']) = [CHR 0xE9 # ''cole'']"
    by code_simp
  let ?ms = "filter (\<lambda>u. \<exists>j\<in>set jobs. sublist (toLowerCase u) (toLowerCase j)) (userSkills p)"
  let ?ns = "filter (\<lambda>j. \<not> (\<exists>u\<in>set (userSkills p). sublist (toLowerCase u) (toLowerCase j))) jobs"
  have "skills_list (fst (processAnalysis analysisData p)) =
          map MatchItem ?ms @ map MissingItem (map toLowerCase ?ns)"
    using processAnalysis_report(1) [OF assms, of p]
    by (simp only: matchingSkills_char missingSkills_char)
  moreover have "subseq ?ms (userSkills p)" and "subseq ?ns jobs"
    by simp_all
  ultimately have shape: "\<exists>ms ns. skills_list (fst (processAnalysis analysisData p)) =
                    map MatchItem ms @ map MissingItem (map toLowerCase ns)
                  \<and> subseq ms (userSkills p) \<and> subseq ns jobs"
    by blast
  have ex1: "matchingSkills [''Python''] (map toLowerCase [''Python Developer'', ''Excel''])
             = [''Python'']"
    by code_simp
  have ex2: "missingSkills [''Python''] (map toLowerCase [''Python Developer'', ''Excel''])
             = [''excel'']"
    by code_simp
  show ?thesis using shape ex1 ex2 ex3 by blast
qed

theorem report_entry_forms_witness:
  "\<exists>ms ns. skills_list
             (fst (processAnalysis
                     (JObj [(''skills'', JArr [JStr ''Python Developer'', JStr ''Excel''])])
                     ((fresh_popup empty_storage)\<lparr>userSkills := [''Python'']\<rparr>)))
           = map MatchItem ms @ map MissingItem (map toLowerCase ns)
         \<and> subseq ms [''Python''] \<and> subseq ns [''Python Developer'', ''Excel'']"
proof -
  have a: "as_array (get_field
             (JObj [(''skills'', JArr [JStr ''Python Developer'', JStr ''Excel''])]) ''skills'')
           = Some (map JStr [''Python Developer'', ''Excel''])"
    by simp
  have u: "userSkills ((fresh_popup empty_storage)\<lparr>userSkills := [''Python'']\<rparr>) = [''Python'']"
    by simp
  show ?thesis
    using report_entry_forms [OF a, of "(fresh_popup empty_storage)\<lparr>userSkills := [''Python'']\<rparr>"]
    by (simp only: u)
qed

section \<open>The field extractor\<close>

lemma tryQuerySelectors_Cons:
  "tryQuerySelectors doc (selector # rest) =
     (case locate doc selector of
        Some v \<Rightarrow> (Some v, [selector])
      | None \<Rightarrow> (case tryQuerySelectors doc rest of (r, q) \<Rightarrow> (r, selector # q)))"
  by (simp add: locate_def split: option.splits)

lemma tryQuerySelectors_all_fail:
  "(\<forall>s\<in>set sels. locate doc s = None) \<Longrightarrow> tryQuerySelectors doc sels = (None, sels)"
  by (induction sels) (simp_all add: tryQuerySelectors_Cons del: tryQuerySelectors.simps(2))

lemma tryQuerySelectors_first_hit:
  "i < length sels \<Longrightarrow> locate doc (sels ! i) = Some v
     \<Longrightarrow> (\<forall>j<i. locate doc (sels ! j) = None)
     \<Longrightarrow> tryQuerySelectors doc sels = (Some v, take (Suc i) sels)"
proof (induction sels arbitrary: i)
  case Nil
  then show ?case by simp
next
  case (Cons s sels)
  show ?case
  proof (cases i)
    case 0
    with Cons.prems show ?thesis
      by (simp add: tryQuerySelectors_Cons del: tryQuerySelectors.simps(2))
  next
    case (Suc k)
    with Cons.prems have head: "locate doc s = None"
      by auto
    from Suc Cons.prems have "tryQuerySelectors doc sels = (Some v, take (Suc k) sels)"
      by (intro Cons.IH) auto
    with head Suc show ?thesis
      by (simp add: tryQuerySelectors_Cons del: tryQuerySelectors.simps(2))
  qed
qed

lemma tryQuerySelectors_None_iff:
  "fst (tryQuerySelectors doc sels) = None \<longleftrightarrow> (\<forall>s\<in>set sels. locate doc s = None)"
  by (induction sels)
    (auto simp: tryQuerySelectors_Cons simp del: tryQuerySelectors.simps(2)
      split: option.splits prod.splits)

text \<open>
  C3. The field extractor queries the locators in the order of the list and stops at the
  first whose element has text that is not empty once trimmed; it returns that trimmed
  text and has queried the locators up to that one, no other. It returns nothing exactly
  when every locator fails, and it has then queried them all. With a first locator whose
  element holds only white space (a space, a no-break space and a tab) and a second whose
  element holds \<open>Acme Corp\<close> between spaces, the result is \<open>Acme Corp\<close>.
\<close>

theorem field_extractor_order:
  "(\<forall>i v. i < length sels \<and> locate doc (sels ! i) = Some v
            \<and> (\<forall>j<i. locate doc (sels ! j) = None)
          \<longrightarrow> tryQuerySelectors doc sels = (Some v, take (Suc i) sels))
   \<and> (fst (tryQuerySelectors doc sels) = None \<longleftrightarrow> (\<forall>s\<in>set sels. locate doc s = None))
   \<and> ((\<forall>s\<in>set sels. locate doc s = None) \<longrightarrow> tryQuerySelectors doc sels = (None, sels))
   \<and> tryQuerySelectors
        \<lparr>hostname = ''www.linkedin.com'',
         querySelector = [''.first'' \<mapsto> Element ''div'' [Text [CHR 0x20, CHR 0xA0, CHR 0x09]],
                          ''.second'' \<mapsto> Element ''span'' [Text '' Acme Corp '']]\<rparr>
        [''.first'', ''.second'']
      = (Some ''Acme Corp'', [''.first'', ''.second''])"
proof -
  have ex: "tryQuerySelectors
        \<lparr>hostname = ''www.linkedin.com'',
         querySelector = [''.first'' \<mapsto> Element ''div'' [Text [CHR 0x20, CHR 0xA0, CHR 0x09]],
                          ''.second'' \<mapsto> Element ''span'' [Text '' Acme Corp '']]\<rparr>
        [''.first'', ''.second'']
      = (Some ''Acme Corp'', [''.first'', ''.second''])"
    by code_simp
  show ?thesis
    using tryQuerySelectors_first_hit [of _ sels doc] tryQuerySelectors_None_iff [of doc sels]
      tryQuerySelectors_all_fail [of sels doc] ex
    by blast
qed

theorem field_extractor_order_witness:
  "tryQuerySelectors
     \<lparr>hostname = ''www.linkedin.com'',
      querySelector = [''.first'' \<mapsto> Element ''div'' [Text [CHR 0x20, CHR 0xA0, CHR 0x09]],
                       ''.second'' \<mapsto> Element ''span'' [Text '' Acme Corp '']]\<rparr>
     [''.first'', ''.missing'', ''.second'', ''.first'']
   = (Some ''Acme Corp'', [''.first'', ''.missing'', ''.second''])"
proof -
  let ?doc = "\<lparr>hostname = ''www.linkedin.com'',
      querySelector = [''.first'' \<mapsto> Element ''div'' [Text [CHR 0x20, CHR 0xA0, CHR 0x09]],
                       ''.second'' \<mapsto> Element ''span'' [Text '' Acme Corp '']]\<rparr>"
  let ?sels = "[''.first'', ''.missing'', ''.second'', ''.first'']"
  have l0: "locate ?doc ''.first'' = None" by code_simp
  have l1: "locate ?doc ''.missing'' = None" by code_simp
  have l2: "locate ?doc ''.second'' = Some ''Acme Corp''" by code_simp
  have before: "\<forall>j<2. locate ?doc (?sels ! j) = None"
    using l0 l1 by (simp add: less_Suc_eq numeral_2_eq_2)
  have "(2::nat) < length ?sels \<and> locate ?doc (?sels ! 2) = Some ''Acme Corp''
          \<and> (\<forall>j<2. locate ?doc (?sels ! j) = None)"
    using l2 before by simp
  then have "tryQuerySelectors ?doc ?sels = (Some ''Acme Corp'', take (Suc 2) ?sels)"
    using field_extractor_order [of ?sels ?doc] by blast
  then show ?thesis by (simp add: numeral_3_eq_3 [symmetric])
qed

section \<open>The job detail extractor\<close>

lemma locate_nonempty: "locate doc s = Some v \<Longrightarrow> v \<noteq> []"
  by (auto simp: locate_def split: option.splits if_splits)

lemma tryQuerySelectors_nonempty:
  "fst (tryQuerySelectors doc sels) = Some v \<Longrightarrow> v \<noteq> []"
  by (induction sels)
    (auto simp: tryQuerySelectors_Cons simp del: tryQuerySelectors.simps(2)
      split: option.splits prod.splits dest: locate_nonempty)

lemma or_default_found:
  "or_default (fst (tryQuerySelectors doc sels)) d =
     (case fst (tryQuerySelectors doc sels) of Some v \<Rightarrow> v | None \<Rightarrow> d)"
  using tryQuerySelectors_nonempty [of doc sels]
  by (cases "fst (tryQuerySelectors doc sels)") simp_all

lemma extractJobDetails_fallback:
  assumes "str_includes (hostname doc) ''linkedin.com''"
    and "fst (tryQuerySelectors doc descriptionSelectors) = None"
    and "querySelector doc ''.jobs-description'' = Some container"
    and "fallback_lines container \<noteq> []"
  shows "fst (extractJobDetails doc) =
           Some \<lparr>description = str_join newline (fallback_lines container),
                 company = (case fst (tryQuerySelectors doc companySelectors) of
                              Some c \<Rightarrow> c | None \<Rightarrow> ''Unknown Company''),
                 title = (case fst (tryQuerySelectors doc titleSelectors) of
                            Some t \<Rightarrow> t | None \<Rightarrow> ''Job Position'')\<rparr>"
proof -
  obtain q1 where d: "tryQuerySelectors doc descriptionSelectors = (None, q1)"
    using assms(2) by (cases "tryQuerySelectors doc descriptionSelectors") simp
  obtain cn q2 where c: "tryQuerySelectors doc companySelectors = (cn, q2)"
    by (cases "tryQuerySelectors doc companySelectors")
  obtain jt q3 where t: "tryQuerySelectors doc titleSelectors = (jt, q3)"
    by (cases "tryQuerySelectors doc titleSelectors")
  have "or_default cn ''Unknown Company'' = (case cn of Some v \<Rightarrow> v | None \<Rightarrow> ''Unknown Company'')"
    using or_default_found [of doc companySelectors] c by simp
  moreover have "or_default jt ''Job Position'' = (case jt of Some v \<Rightarrow> v | None \<Rightarrow> ''Job Position'')"
    using or_default_found [of doc titleSelectors] t by simp
  ultimately show ?thesis
    using assms(1,3,4) d c t
    by (simp add: extractJobDetails_def fallback_lines_def Let_def)
qed

lemma extractJobDetails_primary:
  assumes "str_includes (hostname doc) ''linkedin.com''"
    and "fst (tryQuerySelectors doc descriptionSelectors) = Some d"
  shows "extractJobDetails doc =
           ((case fst (tryQuerySelectors doc companySelectors) of
               Some c \<Rightarrow> Some \<lparr>description = d, company = c,
                                title = (case fst (tryQuerySelectors doc titleSelectors) of
                                           Some t \<Rightarrow> t | None \<Rightarrow> ''Job Position'')\<rparr>
             | None \<Rightarrow> None),
            snd (tryQuerySelectors doc descriptionSelectors)
            @ snd (tryQuerySelectors doc companySelectors)
            @ snd (tryQuerySelectors doc titleSelectors))"
proof -
  obtain q1 where d: "tryQuerySelectors doc descriptionSelectors = (Some d, q1)"
    using assms(2) by (cases "tryQuerySelectors doc descriptionSelectors") simp
  obtain cn q2 where c: "tryQuerySelectors doc companySelectors = (cn, q2)"
    by (cases "tryQuerySelectors doc companySelectors")
  obtain jt q3 where t: "tryQuerySelectors doc titleSelectors = (jt, q3)"
    by (cases "tryQuerySelectors doc titleSelectors")
  have "or_default jt ''Job Position'' = (case jt of Some v \<Rightarrow> v | None \<Rightarrow> ''Job Position'')"
    using or_default_found [of doc titleSelectors] t by simp
  then show ?thesis
    using assms(1) d c t
    by (cases cn) (simp_all add: extractJobDetails_def)
qed

lemma extractJobDetails_foreign_host:
  "\<not> str_includes (hostname doc) ''linkedin.com'' \<Longrightarrow> extractJobDetails doc = (None, [])"
  by (simp add: extractJobDetails_def)

text \<open>
  C4. On a recognized host, the structural fallback decides the result only when the
  description locators yield nothing: when they yield a description, the result carries
  that description and the container is not looked up. When they yield nothing and the
  container exists, the trimmed texts of the paragraphs, list items and divisions below
  the container, at any depth and in document order, are collected, the empty ones
  dropped, and the rest joined with newlines; if a line remains, extraction returns that
  description with the company, or \<open>Unknown Company\<close>, and the title, or \<open>Job Position\<close>.
  Three such elements with the texts \<open>""\<close> (a paragraph that holds a no-break space
  only), \<open>"Responsibilities: code"\<close> and \<open>"Benefits: great"\<close> give the two lines joined by
  a newline.
\<close>

theorem structural_fallback:
  assumes "str_includes (hostname doc) ''linkedin.com''"
  shows "(\<forall>container.
            fst (tryQuerySelectors doc descriptionSelectors) = None
            \<and> querySelector doc ''.jobs-description'' = Some container
            \<and> fallback_lines container \<noteq> []
          \<longrightarrow> fst (extractJobDetails doc) =
                Some \<lparr>description = str_join newline (fallback_lines container),
                      company = (case fst (tryQuerySelectors doc companySelectors) of
                                   Some c \<Rightarrow> c | None \<Rightarrow> ''Unknown Company''),
                      title = (case fst (tryQuerySelectors doc titleSelectors) of
                                 Some t \<Rightarrow> t | None \<Rightarrow> ''Job Position'')\<rparr>)
         \<and> (\<forall>d. fst (tryQuerySelectors doc descriptionSelectors) = Some d
              \<longrightarrow> extractJobDetails doc =
                    ((case fst (tryQuerySelectors doc companySelectors) of
                        Some c \<Rightarrow>
                          Some \<lparr>description = d, company = c,
                                title = (case fst (tryQuerySelectors doc titleSelectors) of
                                           Some t \<Rightarrow> t | None \<Rightarrow> ''Job Position'')\<rparr>
                      | None \<Rightarrow> None),
                     snd (tryQuerySelectors doc descriptionSelectors)
                     @ snd (tryQuerySelectors doc companySelectors)
                     @ snd (tryQuerySelectors doc titleSelectors)))
         \<and> fst (extractJobDetails
                  (fallback_page
                     (Element ''div''
                        [Element ''p'' [Text [CHR 0xA0]],
                         Element ''p'' [Text ''Responsibilities: code''],
                         Element ''li'' [Text '' Benefits: great '']])))
             = Some \<lparr>description = ''Responsibilities: code'' @ newline @ ''Benefits: great'',
                     company = ''Unknown Company'', title = ''Job Position''\<rparr>"
proof -
  have ex: "fst (extractJobDetails
                  (fallback_page
                     (Element ''div''
                        [Element ''p'' [Text [CHR 0xA0]],
                         Element ''p'' [Text ''Responsibilities: code''],
                         Element ''li'' [Text '' Benefits: great '']])))
             = Some \<lparr>description = ''Responsibilities: code'' @ newline @ ''Benefits: great'',
                     company = ''Unknown Company'', title = ''Job Position''\<rparr>"
    by code_simp
  show ?thesis
    using extractJobDetails_fallback [OF assms] extractJobDetails_primary [OF assms] ex
    by blast
qed

theorem structural_fallback_witness:
  "fst (extractJobDetails
          (fallback_page (Element ''div'' [Element ''li'' [Text ''Remote ''], Text ''loose text''])))
   = Some \<lparr>description = ''Remote'', company = ''Unknown Company'', title = ''Job Position''\<rparr>"
proof -
  let ?c = "Element ''div'' [Element ''li'' [Text ''Remote ''], Text ''loose text'']"
  let ?doc = "fallback_page ?c"
  have h: "str_includes (hostname ?doc) ''linkedin.com''" by code_simp
  have d: "fst (tryQuerySelectors ?doc descriptionSelectors) = None" by code_simp
  have c: "fst (tryQuerySelectors ?doc companySelectors) = None" by code_simp
  have t: "fst (tryQuerySelectors ?doc titleSelectors) = None" by code_simp
  have q: "querySelector ?doc ''.jobs-description'' = Some ?c" by code_simp
  have l: "fallback_lines ?c = [''Remote'']" by code_simp
  have "fst (tryQuerySelectors ?doc descriptionSelectors) = None
        \<and> querySelector ?doc ''.jobs-description'' = Some ?c \<and> fallback_lines ?c \<noteq> []"
    using d q l by simp
  then have "fst (extractJobDetails ?doc) =
      Some \<lparr>description = str_join newline (fallback_lines ?c),
            company = (case fst (tryQuerySelectors ?doc companySelectors) of
                         Some c \<Rightarrow> c | None \<Rightarrow> ''Unknown Company''),
            title = (case fst (tryQuerySelectors ?doc titleSelectors) of
                       Some t \<Rightarrow> t | None \<Rightarrow> ''Job Position'')\<rparr>"
    using structural_fallback [OF h] by blast
  then show ?thesis
    by (simp only: c t l str_join.simps option.case)
qed

text \<open>
  Counterexample to C4 as it is worded, with the child nodes of the container: where the
  container holds a division that holds a paragraph, the code collects the text of both,
  the child nodes alone give it once.
\<close>

theorem structural_fallback_children_counterexample:
  "map_option description
     (fst (extractJobDetails
             (fallback_page (Element ''div'' [Element ''div'' [Element ''p'' [Text ''Hello'']]]))))
     = Some (''Hello'' @ newline @ ''Hello'')
   \<and> str_join newline
        (child_lines (Element ''div'' [Element ''div'' [Element ''p'' [Text ''Hello'']]]))
      = ''Hello''
   \<and> ''Hello'' @ newline @ ''Hello'' \<noteq> ''Hello''"
  by code_simp

section \<open>The messaging chain\<close>

lemma onBackgroundResponse_single: "length (onBackgroundResponse r) = 1"
  by (simp add: onBackgroundResponse_def split: reply.splits option.splits)

lemma contentOnMessage_single:
  "length (responses (contentOnMessage doc runtime (Action ''analyze''))) = 1"
proof (cases "extractJobDetails doc")
  case (Pair jd q)
  show ?thesis
  proof (cases jd)
    case None
    with Pair show ?thesis by (simp add: contentOnMessage_def)
  next
    case (Some jobDetails)
    with Pair show ?thesis
      by (cases "runtime (Typed ''analyzeJob'' jobDetails)")
        (simp add: contentOnMessage_def onBackgroundResponse_single)
  qed
qed

lemma backgroundOnMessage_single:
  "length (responses (backgroundOnMessage parse svc sa (Typed ''analyzeJob'' details))) = 1"
  by (simp add: backgroundOnMessage_def Let_def split: fetch_outcome.splits sum.splits)

lemma send_Open_single:
  "length (responses res) = 1 \<Longrightarrow> \<exists>r. responses res = [r] \<and> fst (send Open res) = Reply (Some r)"
  by (cases "responses res") (simp_all add: send_def)

lemma onBackgroundResponse_cases:
  "\<exists>r. onBackgroundResponse x = [r] \<and> (is_error_response r \<or> x = Reply (Some r))"
proof (cases x)
  case (LastError msg)
  then show ?thesis by (simp add: onBackgroundResponse_def is_error_response_def)
next
  case (Reply ro)
  show ?thesis
  proof (cases ro)
    case None
    with Reply show ?thesis by (simp add: onBackgroundResponse_def is_error_response_def)
  next
    case (Some resp)
    with Reply show ?thesis
      by (cases "truthy_error resp") (simp_all add: onBackgroundResponse_def is_error_response_def)
  qed
qed

lemma contentOnMessage_cases:
  "\<exists>r. responses (contentOnMessage doc runtime (Action ''analyze'')) = [r]
       \<and> (is_error_response r
          \<or> (\<exists>jobDetails. fst (extractJobDetails doc) = Some jobDetails
                \<and> fst (runtime (Typed ''analyzeJob'' jobDetails)) = Reply (Some r)))"
proof (cases "extractJobDetails doc")
  case (Pair jd q)
  show ?thesis
  proof (cases jd)
    case None
    with Pair show ?thesis by (simp add: contentOnMessage_def is_error_response_def)
  next
    case (Some jobDetails)
    obtain x fx where rt: "runtime (Typed ''analyzeJob'' jobDetails) = (x, fx)"
      by (cases "runtime (Typed ''analyzeJob'' jobDetails)")
    obtain r where "onBackgroundResponse x = [r]" and "is_error_response r \<or> x = Reply (Some r)"
      using onBackgroundResponse_cases [of x] by blast
    with Pair Some rt show ?thesis
      by (auto simp: contentOnMessage_def)
  qed
qed

lemma backgroundOnMessage_cases:
  "\<exists>r. responses (backgroundOnMessage parse svc sa (Typed ''analyzeJob'' details)) = [r]
       \<and> (is_error_response r \<or> (\<exists>d. r = \<lparr>success = Some True, data = Some d, error = None\<rparr>))"
  by (simp add: backgroundOnMessage_def Let_def is_error_response_def
      split: fetch_outcome.splits sum.splits)

lemma send_reply_cases:
  assumes "fst (send ch res) = Reply (Some r)"
  shows "ch = Open \<and> (\<exists>rest. responses res = r # rest)"
  using assms by (cases ch; cases "responses res") (simp_all add: send_def)

lemma chain_cases:
  "\<exists>r. responses
          (contentOnMessage doc
             (\<lambda>m. send ch (backgroundOnMessage parse svc sa m)) (Action ''analyze'')) = [r]
       \<and> fst (send Open
                (contentOnMessage doc
                   (\<lambda>m. send ch (backgroundOnMessage parse svc sa m)) (Action ''analyze'')))
          = Reply (Some r)
       \<and> (is_error_response r \<or> (\<exists>d. r = \<lparr>success = Some True, data = Some d, error = None\<rparr>))"
proof -
  let ?rt = "\<lambda>m. send ch (backgroundOnMessage parse svc sa m)"
  obtain r where r: "responses (contentOnMessage doc ?rt (Action ''analyze'')) = [r]"
    and alt: "is_error_response r
          \<or> (\<exists>jobDetails. fst (extractJobDetails doc) = Some jobDetails
                \<and> fst (?rt (Typed ''analyzeJob'' jobDetails)) = Reply (Some r))"
    using contentOnMessage_cases [of doc ?rt] by blast
  have kind: "is_error_response r \<or> (\<exists>d. r = \<lparr>success = Some True, data = Some d, error = None\<rparr>)"
  proof (cases "is_error_response r")
    case True
    then show ?thesis by simp
  next
    case False
    with alt obtain jobDetails where
      "fst (send ch (backgroundOnMessage parse svc sa (Typed ''analyzeJob'' jobDetails))) = Reply (Some r)"
      by blast
    then obtain rest where
      "responses (backgroundOnMessage parse svc sa (Typed ''analyzeJob'' jobDetails)) = r # rest"
      using send_reply_cases by blast
    then show ?thesis
      using backgroundOnMessage_cases [of parse svc sa jobDetails] by auto
  qed
  have "fst (send Open (contentOnMessage doc ?rt (Action ''analyze''))) = Reply (Some r)"
    using r by (simp add: send_def)
  with r kind show ?thesis by blast
qed

lemma chain_success:
  assumes "fst (extractJobDetails doc) = Some jobDetails"
    and "svc (request_for jobDetails sa) = HttpResponse status body"
    and "parse body = Inr d"
  shows "responses
           (contentOnMessage doc
              (\<lambda>m. send Open (backgroundOnMessage parse svc sa m)) (Action ''analyze''))
         = [\<lparr>success = Some True, data = Some d, error = None\<rparr>]"
proof -
  obtain q where e: "extractJobDetails doc = (Some jobDetails, q)"
    using assms(1) by (cases "extractJobDetails doc") simp
  have b: "responses (backgroundOnMessage parse svc sa (Typed ''analyzeJob'' jobDetails))
           = [\<lparr>success = Some True, data = Some d, error = None\<rparr>]"
    using assms(2,3) by (simp add: backgroundOnMessage_def Let_def request_for_def)
  show ?thesis
    using e b
    by (simp add: contentOnMessage_def send_def onBackgroundResponse_def truthy_error_def
        split: prod.splits)
qed

text \<open>
  C5. A request to analyze gets exactly one response, an error or a success that carries
  the analysis data. The content-script listener calls \<open>sendResponse\<close> exactly once,
  whatever the page holds and whatever the callback of its own message to the background
  finds (an error of the runtime, no response, a failure of the service, a result): with
  an error response, or else with the very response that the callback found. The
  background listener calls \<open>sendResponse\<close> exactly once for every message \<open>analyzeJob\<close>,
  however \<open>fetch\<close> settles: with an error response, or with \<open>success: true\<close> and the parsed
  body. With the two listeners connected, the single response of the content script is
  what the requester receives, and it is an error response or \<open>success: true\<close> with data;
  it is the success with the parsed body whenever the extraction succeeds, the channel
  to the background is open and the body of the service's response is well-formed. The
  browser is taken to run each callback once, \<open>fetch\<close> to settle, and \<open>sendResponse\<close> to
  return normally.
\<close>

theorem exactly_one_response:
  "length (responses (contentOnMessage doc runtime (Action ''analyze''))) = 1
   \<and> (\<exists>r. responses (contentOnMessage doc runtime (Action ''analyze'')) = [r]
          \<and> (is_error_response r
             \<or> (\<exists>jobDetails. fst (extractJobDetails doc) = Some jobDetails
                   \<and> fst (runtime (Typed ''analyzeJob'' jobDetails)) = Reply (Some r))))
   \<and> length (responses (backgroundOnMessage parse svc sa (Typed ''analyzeJob'' details))) = 1
   \<and> (\<exists>r. responses (backgroundOnMessage parse svc sa (Typed ''analyzeJob'' details)) = [r]
          \<and> (is_error_response r
             \<or> (\<exists>d. r = \<lparr>success = Some True, data = Some d, error = None\<rparr>)))
   \<and> (\<exists>r. responses
              (contentOnMessage doc
                 (\<lambda>m. send ch (backgroundOnMessage parse svc sa m)) (Action ''analyze''))
            = [r]
          \<and> fst (send Open
                   (contentOnMessage doc
                      (\<lambda>m. send ch (backgroundOnMessage parse svc sa m)) (Action ''analyze'')))
            = Reply (Some r)
          \<and> (is_error_response r
             \<or> (\<exists>d. r = \<lparr>success = Some True, data = Some d, error = None\<rparr>)))
   \<and> (\<forall>jobDetails status body d.
         fst (extractJobDetails doc) = Some jobDetails
         \<and> svc (request_for jobDetails sa) = HttpResponse status body
         \<and> parse body = Inr d
       \<longrightarrow> responses
             (contentOnMessage doc
                (\<lambda>m. send Open (backgroundOnMessage parse svc sa m)) (Action ''analyze''))
           = [\<lparr>success = Some True, data = Some d, error = None\<rparr>])"
proof -
  have success: "\<forall>jobDetails status body d.
         fst (extractJobDetails doc) = Some jobDetails
         \<and> svc (request_for jobDetails sa) = HttpResponse status body
         \<and> parse body = Inr d
       \<longrightarrow> responses
             (contentOnMessage doc
                (\<lambda>m. send Open (backgroundOnMessage parse svc sa m)) (Action ''analyze''))
           = [\<lparr>success = Some True, data = Some d, error = None\<rparr>]"
    using chain_success [of doc _ svc sa _ _ parse] by blast
  show ?thesis
    using contentOnMessage_single [of doc runtime] contentOnMessage_cases [of doc runtime]
      backgroundOnMessage_single [of parse svc sa details]
      backgroundOnMessage_cases [of parse svc sa details]
      chain_cases [of doc ch parse svc sa] success
    by (intro conjI)
qed

theorem exactly_one_response_witness:
  "responses
     (contentOnMessage
        \<lparr>hostname = ''www.linkedin.com'',
         querySelector = [''#job-details'' \<mapsto> Element ''div'' [Text ''Build things''],
                          ''.jobs-company__name'' \<mapsto> Element ''a'' [Text ''Acme'']]\<rparr>
        (\<lambda>m. send Open
               (backgroundOnMessage
                  (\<lambda>body. if body = ''{}'' then Inr (JObj []) else Inl ''Unexpected token'')
                  (\<lambda>req. HttpResponse 200 ''{}'') empty_storage m))
        (Action ''analyze''))
   = [\<lparr>success = Some True, data = Some (JObj []), error = None\<rparr>]"
proof -
  let ?doc = "\<lparr>hostname = ''www.linkedin.com'',
         querySelector = [''#job-details'' \<mapsto> Element ''div'' [Text ''Build things''],
                          ''.jobs-company__name'' \<mapsto> Element ''a'' [Text ''Acme'']]\<rparr>"
  let ?parse = "\<lambda>body. if body = ''{}'' then Inr (JObj []) else Inl ''Unexpected token''"
  let ?svc = "\<lambda>req :: analysis_request. HttpResponse 200 ''{}''"
  let ?jd = "\<lparr>description = ''Build things'', company = ''Acme'', title = ''Job Position''\<rparr>"
  have e: "fst (extractJobDetails ?doc) = Some ?jd"
    by code_simp
  have "fst (extractJobDetails ?doc) = Some ?jd
        \<and> ?svc (request_for ?jd empty_storage) = HttpResponse 200 ''{}''
        \<and> ?parse ''{}'' = Inr (JObj [])"
    using e by simp
  then show ?thesis
    using exactly_one_response [of ?doc _ ?parse ?svc empty_storage]
    by blast
qed

lemma backgroundOnMessage_responses:
  "responses (backgroundOnMessage parse svc sa (Typed ''analyzeJob'' details)) =
     [case svc \<lparr>description = description details, company = company details,
                    title = title details,
                    skills = (case stored_userSkills sa of Some s \<Rightarrow> s | None \<Rightarrow> [])\<rparr> of
        NetworkFailure msg \<Rightarrow> \<lparr>success = Some False, data = None, error = Some msg\<rparr>
      | HttpResponse status body \<Rightarrow>
          (case parse body of
             Inl msg \<Rightarrow> \<lparr>success = Some False, data = None, error = Some msg\<rparr>
           | Inr d \<Rightarrow> \<lparr>success = Some True, data = Some d, error = None\<rparr>)]"
  by (simp add: backgroundOnMessage_def Let_def split: fetch_outcome.splits sum.splits)

text \<open>
  C2. The background listener classifies the outcome of the request by the body alone.
  When \<open>fetch\<close> rejects, or the body of the response is not well-formed JSON, the relayed
  response has \<open>success: false\<close> and the text of the failure; when the body is
  well-formed JSON, the relayed response has \<open>success: true\<close> and the parsed value,
  whatever the status of the response. So \<open>success: true\<close> is produced only for a
  well-formed body.
\<close>

theorem inbound_response_classification:
  "(svc \<lparr>description = description details, company = company details,
             title = title details,
             skills = (case stored_userSkills sa of Some s \<Rightarrow> s | None \<Rightarrow> [])\<rparr>
      = HttpResponse status body
    \<longrightarrow> (\<forall>msg. parse body = Inl msg \<longrightarrow>
            responses (backgroundOnMessage parse svc sa (Typed ''analyzeJob'' details))
              = [\<lparr>success = Some False, data = None, error = Some msg\<rparr>])
       \<and> (\<forall>d. parse body = Inr d \<longrightarrow>
            responses (backgroundOnMessage parse svc sa (Typed ''analyzeJob'' details))
              = [\<lparr>success = Some True, data = Some d, error = None\<rparr>]))
   \<and> (\<forall>msg. svc \<lparr>description = description details, company = company details,
                      title = title details,
                      skills = (case stored_userSkills sa of Some s \<Rightarrow> s | None \<Rightarrow> [])\<rparr>
            = NetworkFailure msg
          \<longrightarrow> responses (backgroundOnMessage parse svc sa (Typed ''analyzeJob'' details))
              = [\<lparr>success = Some False, data = None, error = Some msg\<rparr>])"
  by (simp add: backgroundOnMessage_responses)

theorem inbound_response_classification_witness:
  "responses
     (backgroundOnMessage
        (\<lambda>body. if body = ''{}'' then Inr (JObj []) else Inl ''Unexpected token'')
        (\<lambda>req. HttpResponse 200 ''<html>'')
        empty_storage
        (Typed ''analyzeJob'' \<lparr>description = ''d'', company = ''c'', title = ''t''\<rparr>))
   = [\<lparr>success = Some False, data = None, error = Some ''Unexpected token''\<rparr>]
   \<and> responses
     (backgroundOnMessage
        (\<lambda>body. if body = ''{}'' then Inr (JObj []) else Inl ''Unexpected token'')
        (\<lambda>req. HttpResponse 200 ''{}'')
        empty_storage
        (Typed ''analyzeJob'' \<lparr>description = ''d'', company = ''c'', title = ''t''\<rparr>))
   = [\<lparr>success = Some True, data = Some (JObj []), error = None\<rparr>]"
  using inbound_response_classification
      [of "\<lambda>req. HttpResponse 200 ''<html>''" "\<lparr>description = ''d'', company = ''c'', title = ''t''\<rparr>"
          empty_storage 200 "''<html>''"
          "\<lambda>body. if body = ''{}'' then Inr (JObj []) else Inl ''Unexpected token''"]
    inbound_response_classification
      [of "\<lambda>req. HttpResponse 200 ''{}''" "\<lparr>description = ''d'', company = ''c'', title = ''t''\<rparr>"
          empty_storage 200 "''{}''"
          "\<lambda>body. if body = ''{}'' then Inr (JObj []) else Inl ''Unexpected token''"]
  by simp

text \<open>
  Counterexample to C2 as it is worded: for a response with the status 500 and a body of
  well-formed JSON the relayed response has \<open>success: true\<close>.
\<close>

theorem non_2xx_status_counterexample:
  "responses
     (backgroundOnMessage
        (\<lambda>body. if body = ''{}'' then Inr (JObj []) else Inl ''Unexpected token'')
        (\<lambda>req. HttpResponse 500 ''{}'')
        empty_storage
        (Typed ''analyzeJob'' \<lparr>description = ''d'', company = ''c'', title = ''t''\<rparr>))
   = [\<lparr>success = Some True, data = Some (JObj []), error = None\<rparr>]"
  by (simp add: backgroundOnMessage_def empty_storage_def)

section \<open>The guards on the host\<close>

text \<open>
  C8. When the address of the active tab is missing or does not contain
  \<open>linkedin.com/jobs\<close>, a click on the analyze button only clears the old error and shows
  the message that asks for a LinkedIn job posting: no message goes to the page, no
  locator is tried and no request goes to the analysis service. In the page, when the
  host name does not contain \<open>linkedin.com\<close>, the extractor returns nothing without a
  single query of the document, and the content script answers with the extraction
  error without a message to the background.
\<close>

theorem host_mismatch_guard:
  "(\<not> url_recognized (tab_url env)
      \<longrightarrow> analyzeClick env p = (showError (Message host_mismatch) (clearError p), []))
   \<and> (\<not> str_includes (hostname doc) ''linkedin.com''
      \<longrightarrow> extractJobDetails doc = (None, [])
        \<and> contentOnMessage doc runtime (Action ''analyze'')
            = \<lparr>returned = Some False,
               responses = [\<lparr>success = None, data = None, error = Some extraction_failed\<rparr>],
               effects = []\<rparr>)"
  by (simp add: analyzeClick_def Let_def contentOnMessage_def extractJobDetails_foreign_host)

theorem host_mismatch_guard_witness:
  "analyzeClick
     \<lparr>tab_url = Some ''https://www.example.com/careers'',
      page = \<lparr>hostname = ''www.example.com'', querySelector = Map.empty\<rparr>,
      tab_channel = Open, runtime_channel = Open,
      parse_json = (\<lambda>body. Inr JNull),
      service = (\<lambda>req. HttpResponse 200 ''null'')\<rparr>
     (fresh_popup empty_storage)
   = (showError (Message host_mismatch) (clearError (fresh_popup empty_storage)), [])
   \<and> extractJobDetails \<lparr>hostname = ''www.example.com'', querySelector = Map.empty\<rparr> = (None, [])"
proof -
  have u: "\<not> url_recognized (Some ''https://www.example.com/careers'')"
    by code_simp
  have h: "\<not> str_includes ''www.example.com'' ''linkedin.com''"
    by code_simp
  show ?thesis
    using host_mismatch_guard
      [of "\<lparr>tab_url = Some ''https://www.example.com/careers'',
            page = \<lparr>hostname = ''www.example.com'', querySelector = Map.empty\<rparr>,
            tab_channel = Open, runtime_channel = Open,
            parse_json = (\<lambda>body. Inr JNull),
            service = (\<lambda>req. HttpResponse 200 ''null'')\<rparr>"
          "fresh_popup empty_storage"
          "\<lparr>hostname = ''www.example.com'', querySelector = Map.empty\<rparr>"]
      u h
    by simp
qed

section \<open>Validation of the relayed result\<close>

lemma onAnalyzeResponse_result:
  assumes "truthy_error resp = None" and "data resp = Some analysisData"
    and "truthy analysisData"
  shows "onAnalyzeResponse (Reply (Some resp)) p =
           (case processAnalysis analysisData p of
              (p1, Some e) \<Rightarrow> showError (ProcessingError e) p1
            | (p1, None) \<Rightarrow> p1)"
  using assms by (simp add: onAnalyzeResponse_def)

lemma onAnalyzeResponse_report:
  assumes "truthy_error resp = None" and "data resp = Some analysisData"
    and "truthy analysisData"
  shows "skills_list (onAnalyzeResponse (Reply (Some resp)) p) =
           skills_list (fst (processAnalysis analysisData p))"
    and "match_percentage (onAnalyzeResponse (Reply (Some resp)) p) =
           match_percentage (fst (processAnalysis analysisData p))"
proof -
  obtain p1 e where r: "processAnalysis analysisData p = (p1, e)"
    by (cases "processAnalysis analysisData p")
  show "skills_list (onAnalyzeResponse (Reply (Some resp)) p) =
           skills_list (fst (processAnalysis analysisData p))"
    using onAnalyzeResponse_result [OF assms, of p] r
    by (cases e) (simp_all add: showError_def)
  show "match_percentage (onAnalyzeResponse (Reply (Some resp)) p) =
           match_percentage (fst (processAnalysis analysisData p))"
    using onAnalyzeResponse_result [OF assms, of p] r
    by (cases e) (simp_all add: showError_def)
qed

text \<open>
  C6. For a relayed response without an error whose result is present (truthy): when the
  \<open>skills\<close> field of the result is absent or not a sequence, the popup changes nothing
  but its error message, which becomes \<open>Error processing job details: Invalid skills
  format from server\<close>, so no match report is rendered; when the field is a sequence of
  texts, the match percentage and the categorized skills are rendered.
\<close>

theorem skills_validation:
  assumes "truthy_error resp = None" and "data resp = Some analysisData"
    and "truthy analysisData"
  shows "(as_array (get_field analysisData ''skills'') = None
            \<longrightarrow> onAnalyzeResponse (Reply (Some resp)) p =
                  showError (ProcessingError (Error ''Invalid skills format from server'')) p)
         \<and> (\<forall>jobs. as_array (get_field analysisData ''skills'') = Some (map JStr jobs)
              \<longrightarrow> skills_list (onAnalyzeResponse (Reply (Some resp)) p) =
                    map MatchItem (matchingSkills (userSkills p) (map toLowerCase jobs))
                    @ map MissingItem (missingSkills (userSkills p) (map toLowerCase jobs))
                  \<and> match_percentage (onAnalyzeResponse (Reply (Some resp)) p) =
                    Some (or_zero (get_field analysisData ''matchPercentage'')))"
proof -
  have invalid: "onAnalyzeResponse (Reply (Some resp)) p =
                  showError (ProcessingError (Error ''Invalid skills format from server'')) p"
    if "as_array (get_field analysisData ''skills'') = None"
    using onAnalyzeResponse_result [OF assms, of p] that
    by (simp add: processAnalysis_def)
  show ?thesis
    using invalid onAnalyzeResponse_report [OF assms, of p] processAnalysis_report [of analysisData _ p]
    by simp
qed

theorem skills_validation_witness:
  "onAnalyzeResponse
     (Reply (Some \<lparr>success = Some True,
                   data = Some (JObj [(''detail'', JStr ''Internal Server Error'')]),
                   error = None\<rparr>))
     (fresh_popup empty_storage)
   = showError (ProcessingError (Error ''Invalid skills format from server''))
       (fresh_popup empty_storage)
   \<and> skills_list
       (onAnalyzeResponse
          (Reply (Some \<lparr>success = Some True,
                        data = Some (JObj [(''skills'', JArr [JStr ''SQL Expert'', JStr ''Excel''])]),
                        error = None\<rparr>))
          ((fresh_popup empty_storage)\<lparr>userSkills := [''sql'']\<rparr>))
     = [MatchItem ''sql'', MissingItem ''excel'']"
proof -
  let ?bad = "JObj [(''detail'', JStr ''Internal Server Error'')]"
  let ?good = "JObj [(''skills'', JArr [JStr ''SQL Expert'', JStr ''Excel''])]"
  let ?p = "(fresh_popup empty_storage)\<lparr>userSkills := [''sql'']\<rparr>"
  have e: "truthy_error \<lparr>success = Some True, data = Some d, error = None\<rparr> = None" for d
    by (simp add: truthy_error_def)
  have first: "onAnalyzeResponse
     (Reply (Some \<lparr>success = Some True, data = Some ?bad, error = None\<rparr>))
     (fresh_popup empty_storage)
   = showError (ProcessingError (Error ''Invalid skills format from server''))
       (fresh_popup empty_storage)"
    using skills_validation
      [of "\<lparr>success = Some True, data = Some ?bad, error = None\<rparr>" ?bad "fresh_popup empty_storage"] e
    by simp
  have a: "as_array (get_field ?good ''skills'') = Some (map JStr [''SQL Expert'', ''Excel''])"
    by simp
  have m: "matchingSkills [''sql''] (map toLowerCase [''SQL Expert'', ''Excel'']) = [''sql'']"
    by code_simp
  have n: "missingSkills [''sql''] (map toLowerCase [''SQL Expert'', ''Excel'']) = [''excel'']"
    by code_simp
  have u: "userSkills ?p = [''sql'']" by simp
  have second: "skills_list
       (onAnalyzeResponse (Reply (Some \<lparr>success = Some True, data = Some ?good, error = None\<rparr>)) ?p)
     = [MatchItem ''sql'', MissingItem ''excel'']"
    using skills_validation
      [of "\<lparr>success = Some True, data = Some ?good, error = None\<rparr>" ?good ?p] e a
    by (simp only: u m n response.simps truthy.simps simp_thms) simp
  show ?thesis using first second by simp
qed

text \<open>
  Counterexample to C6 as it is worded: for a \<open>skills\<close> field that is a sequence with an
  element that is not text, lowercasing throws, nothing of the report is rendered and the
  error shown is that exception; for a result that is \<open>null\<close>, the error shown is the one
  about the structure of the response.
\<close>

theorem skills_sequence_counterexample:
  "onAnalyzeResponse
     (Reply (Some \<lparr>success = Some True, data = Some (JObj [(''skills'', JArr [JNum 1])]),
                   error = None\<rparr>))
     (fresh_popup empty_storage)
   = showError (ProcessingError TypeError) (fresh_popup empty_storage)
   \<and> onAnalyzeResponse
       (Reply (Some \<lparr>success = Some True, data = Some JNull, error = None\<rparr>))
       (fresh_popup empty_storage)
     = showError (Message invalid_structure) (fresh_popup empty_storage)"
  by (simp add: onAnalyzeResponse_def truthy_error_def processAnalysis_def)

section \<open>The profile\<close>

lemma set_first_occurrences [simp]: "set (first_occurrences xs) = set xs"
  by (induction xs rule: first_occurrences.induct) auto

lemma distinct_first_occurrences [simp]: "distinct (first_occurrences xs)"
  by (induction xs rule: first_occurrences.induct) auto

lemma foldl_addStep:
  "fst (foldl addStep (old, n) new) =
     old @ first_occurrences (filter (\<lambda>e. e \<notin> set old) new)"
proof (induction new arbitrary: old n)
  case Nil
  show ?case by simp
next
  case (Cons x xs)
  show ?case
  proof (cases "x \<in> set old")
    case True
    then show ?thesis using Cons.IH [of old n] by (simp add: addStep_def)
  next
    case False
    have "filter (\<lambda>e. e \<notin> set (old @ [x])) xs = filter (\<lambda>y. y \<noteq> x) (filter (\<lambda>e. e \<notin> set old) xs)"
      by (auto intro: filter_cong)
    then show ?thesis using False Cons.IH [of "old @ [x]" "n + 1"] by (simp add: addStep_def)
  qed
qed

lemma entries_lowercase: "e \<in> set (entries text) \<Longrightarrow> toLowerCase e = e"
  by (auto simp: entries_def toLowerCase_idem)

lemma lowercase_text_empty: "toLowerCase s = [] \<longleftrightarrow> s = []"
  by (simp add: toLowerCase_def)

lemma userSkills_submitSkills:
  "userSkills (submitSkills text p) =
     userSkills p @ first_occurrences (filter (\<lambda>e. e \<notin> set (userSkills p)) (entries text))"
proof (cases "trim text = []")
  case True
  then show ?thesis
    by (simp add: submitSkills_def addSkills_def lowercase_text_empty entries_empty_text)
next
  case False
  obtain sk cnt where f: "foldl addStep (userSkills p, 0) (entries text) = (sk, cnt)"
    by (cases "foldl addStep (userSkills p, 0) (entries text)")
  then have "sk = userSkills p @ first_occurrences (filter (\<lambda>e. e \<notin> set (userSkills p)) (entries text))"
    using foldl_addStep [of "userSkills p" 0 "entries text"] by simp
  then show ?thesis
    using False f
    by (simp add: submitSkills_def addSkills_def lowercase_text_empty newSkills_entries
        displayUserSkills_def)
qed

lemma storage_submitSkills:
  "storage (submitSkills text p) =
     (if trim text = [] then storage p
      else saveUserSkills (userSkills (submitSkills text p)) (storage p))"
proof (cases "trim text = []")
  case True
  then show ?thesis
    by (simp add: submitSkills_def addSkills_def lowercase_text_empty)
next
  case False
  obtain sk cnt where f: "foldl addStep (userSkills p, 0) (entries text) = (sk, cnt)"
    by (cases "foldl addStep (userSkills p, 0) (entries text)")
  show ?thesis
    using False f
    by (simp add: submitSkills_def addSkills_def lowercase_text_empty newSkills_entries
        displayUserSkills_def)
qed

lemma normalized_append_entries:
  assumes "normalized l"
  shows "normalized (l @ first_occurrences (filter (\<lambda>e. e \<notin> set l) (entries text)))"
  using assms by (auto simp: normalized_def list_all_iff entries_lowercase)

lemma normalized_filter: "normalized l \<Longrightarrow> normalized (filter P l)"
  by (simp add: normalized_def list_all_iff)

lemma normalized_case_insensitive: "normalized l \<Longrightarrow> distinct (map toLowerCase l)"
  by (simp add: normalized_def list_all_iff map_idI)

lemma profile_inv_cong:
  "userSkills q = userSkills p \<Longrightarrow> storage q = storage p \<Longrightarrow> profile_inv q = profile_inv p"
  by (simp add: profile_inv_def cong: option.case_cong)

lemma onDOMContentLoaded_fresh:
  "userSkills (onDOMContentLoaded (fresh_popup sa)) =
     (case stored_userSkills sa of Some l \<Rightarrow> l | None \<Rightarrow> [])"
  "storage (onDOMContentLoaded (fresh_popup sa)) = sa"
  by (simp_all add: onDOMContentLoaded_def fresh_popup_def displayUserSkills_def showSection_def
      Let_def split: option.splits)

lemma storage_onDOMContentLoaded: "storage (onDOMContentLoaded p) = storage p"
  by (simp add: onDOMContentLoaded_def displayUserSkills_def showSection_def Let_def
      split: option.splits)

lemma removeSkill_frame:
  "userSkills (removeSkill s p) = filter (\<lambda>x. x \<noteq> s) (userSkills p)"
  "storage (removeSkill s p) = storage p"
  by (simp_all add: removeSkill_def displayUserSkills_def)

lemma saveProfileClick_frame:
  "userSkills (saveProfileClick p) = userSkills p"
  "storage (saveProfileClick p) = saveUserSkills (userSkills p) (storage p)"
  by (simp_all add: saveProfileClick_def showSection_def)

lemma editProfileClick_frame:
  "userSkills (editProfileClick p) = userSkills p"
  "storage (editProfileClick p) = storage p"
  by (simp_all add: editProfileClick_def showSection_def)

lemma renderInclusion_frame:
  "userSkills (fst (renderInclusion v p)) = userSkills p"
  "storage (fst (renderInclusion v p)) = storage p"
  by (induction v p rule: renderInclusion.induct) (simp_all add: Let_def)

lemma renderPrograms_frame:
  "userSkills (renderPrograms v p) = userSkills p"
  "storage (renderPrograms v p) = storage p"
  by (induction v p rule: renderPrograms.induct) simp_all

lemma processAnalysis_frame:
  "userSkills (fst (processAnalysis a p)) = userSkills p"
  "storage (fst (processAnalysis a p)) = storage p"
proof -
  have "userSkills (fst (processAnalysis a p)) = userSkills p
        \<and> storage (fst (processAnalysis a p)) = storage p"
  proof (cases "as_array (get_field a ''skills'')")
    case None
    then show ?thesis by (simp add: processAnalysis_def)
  next
    case (Some sk)
    show ?thesis
    proof (cases "lowerAll sk")
      case (Inl e)
      with Some show ?thesis by (simp add: processAnalysis_def)
    next
      case (Inr jobSkills)
      let ?p1 = "p\<lparr>match_percentage := Some (or_zero (get_field a ''matchPercentage'')),
                   skills_list := map MatchItem (matchingSkills (userSkills p) jobSkills)
                                  @ map MissingItem (missingSkills (userSkills p) jobSkills)\<rparr>"
      obtain p2 e where r: "renderInclusion (get_field a ''inclusionScore'') ?p1 = (p2, e)"
        by (cases "renderInclusion (get_field a ''inclusionScore'') ?p1")
      have "userSkills p2 = userSkills p" "storage p2 = storage p"
        using renderInclusion_frame [of "get_field a ''inclusionScore''" ?p1] r by simp_all
      then show ?thesis
        using Some Inr r
        by (cases e) (simp_all add: processAnalysis_def Let_def renderPrograms_frame)
    qed
  qed
  then show "userSkills (fst (processAnalysis a p)) = userSkills p"
    and "storage (fst (processAnalysis a p)) = storage p"
    by simp_all
qed

lemma showError_frame:
  "userSkills (showError m p) = userSkills p"
  "storage (showError m p) = storage p"
  by (simp_all add: showError_def)

lemma onAnalyzeResponse_frame:
  "userSkills (onAnalyzeResponse r p) = userSkills p"
  "storage (onAnalyzeResponse r p) = storage p"
proof -
  have h: "userSkills (case processAnalysis a p of
                      (p1, Some e) \<Rightarrow> showError (ProcessingError e) p1
                    | (p1, None) \<Rightarrow> p1) = userSkills p
        \<and> storage (case processAnalysis a p of
                      (p1, Some e) \<Rightarrow> showError (ProcessingError e) p1
                    | (p1, None) \<Rightarrow> p1) = storage p" for a
    using processAnalysis_frame [of a p]
    by (cases "processAnalysis a p") (auto simp: showError_frame split: option.splits)
  show "userSkills (onAnalyzeResponse r p) = userSkills p"
    by (simp add: onAnalyzeResponse_def showError_frame h split: reply.splits option.splits)
  show "storage (onAnalyzeResponse r p) = storage p"
    by (simp add: onAnalyzeResponse_def showError_frame h split: reply.splits option.splits)
qed

lemma analyzeClick_frame:
  "userSkills (fst (analyzeClick env p)) = userSkills p"
  "storage (fst (analyzeClick env p)) = storage p"
  by (simp_all add: analyzeClick_def Let_def onAnalyzeResponse_frame showError_def clearError_def
      split: prod.splits)

lemma profile_inv_opened: "profile_inv (onDOMContentLoaded (fresh_popup empty_storage))"
  by (simp add: profile_inv_def onDOMContentLoaded_fresh empty_storage_def normalized_def)

lemma profile_inv_reopened:
  "profile_inv p \<Longrightarrow> profile_inv (onDOMContentLoaded (fresh_popup (storage p)))"
  by (auto simp: profile_inv_def onDOMContentLoaded_fresh normalized_def list_all_iff
      split: option.splits)

lemma profile_inv_submitSkills:
  assumes "profile_inv p"
  shows "profile_inv (submitSkills text p)"
proof (cases "trim text = []")
  case True
  then have "userSkills (submitSkills text p) = userSkills p"
    and "storage (submitSkills text p) = storage p"
    by (simp_all add: userSkills_submitSkills storage_submitSkills entries_empty_text)
  then show ?thesis using assms profile_inv_cong by blast
next
  case False
  have "normalized (userSkills (submitSkills text p))"
    using assms by (simp add: userSkills_submitSkills profile_inv_def normalized_append_entries)
  then show ?thesis
    using False
    by (simp add: profile_inv_def storage_submitSkills saveUserSkills_def list_all_iff)
qed

lemma profile_inv_removeSkill: "profile_inv p \<Longrightarrow> profile_inv (removeSkill s p)"
  by (auto simp: profile_inv_def removeSkill_frame normalized_filter list_all_iff
      split: option.splits)

lemma profile_inv_saveProfileClick: "profile_inv p \<Longrightarrow> profile_inv (saveProfileClick p)"
  by (simp add: profile_inv_def saveProfileClick_frame saveUserSkills_def list_all_iff)

lemma reachable_profile_inv: "reachable p \<Longrightarrow> profile_inv p"
proof (induction rule: reachable.induct)
  case opened
  show ?case by (rule profile_inv_opened)
next
  case (reopened p)
  then show ?case by (simp add: profile_inv_reopened)
next
  case (added p input)
  then show ?case by (simp add: profile_inv_submitSkills)
next
  case (removed p skillToRemove)
  then show ?case by (simp add: profile_inv_removeSkill)
next
  case (saved p)
  then show ?case by (simp add: profile_inv_saveProfileClick)
next
  case (edited p)
  then show ?case using profile_inv_cong [OF editProfileClick_frame] by blast
next
  case (analyzed p env)
  then show ?case using profile_inv_cong [OF analyzeClick_frame] by blast
qed

lemma distinct_count_list:
  "distinct xs \<Longrightarrow> x \<in> set xs \<Longrightarrow> count_list xs x = 1"
  by (induction xs) auto

text \<open>
  C7. Let a text be submitted to the add operation of a popup that can arise. The skill
  list afterwards is the list before followed by the entries of the text (its
  comma-separated pieces, trimmed and lowercased, the empty ones left out) that were not
  in the list, each once and in the order of their first occurrence. If the text has an
  entry, the list has been persisted, and each entry of the text occurs in it exactly
  once. No two skills of the list, in memory or persisted, are equal up to case, after an
  add and after a remove. Adding \<open>Python, SQL, python\<close> to the empty profile gives
  \<open>python, sql\<close>. Trimming and lowercasing reach the no-break space and the accented
  letters: adding \<open>Ecole, ecole\<close>, the first with U+00C9 and the second with U+00E9 as its
  first letter and the whole between no-break spaces, gives the one skill \<open>ecole\<close> with
  U+00E9; an input of a single no-break space changes nothing.
\<close>

theorem profile_add:
  assumes "reachable p"
  shows "userSkills (submitSkills input p) =
           userSkills p
           @ first_occurrences (filter (\<lambda>e. e \<notin> set (userSkills p)) (entries input))
         \<and> (\<forall>e\<in>set (entries input).
               stored_userSkills (storage (submitSkills input p)) =
                 Some (userSkills (submitSkills input p))
               \<and> count_list (userSkills (submitSkills input p)) e = 1)
         \<and> distinct (map toLowerCase (userSkills (submitSkills input p)))
         \<and> (\<forall>l. stored_userSkills (storage (submitSkills input p)) = Some l
                \<longrightarrow> distinct (map toLowerCase l))
         \<and> distinct (map toLowerCase (userSkills (removeSkill s p)))
         \<and> (\<forall>l. stored_userSkills (storage (removeSkill s p)) = Some l
                \<longrightarrow> distinct (map toLowerCase l))
         \<and> userSkills (submitSkills ''Python, SQL, python''
                         (onDOMContentLoaded (fresh_popup empty_storage)))
             = [''python'', ''sql'']
         \<and> stored_userSkills
               (storage (submitSkills ''Python, SQL, python''
                           (onDOMContentLoaded (fresh_popup empty_storage))))
             = Some [''python'', ''sql'']
         \<and> userSkills (submitSkills
                         ([CHR 0xA0, CHR 0xC9] @ ''cole, '' @ [CHR 0xE9] @ ''cole'' @ [CHR 0xA0])
                         (onDOMContentLoaded (fresh_popup empty_storage)))
             = [CHR 0xE9 # ''cole'']
         \<and> submitSkills [CHR 0xA0] (onDOMContentLoaded (fresh_popup empty_storage))
             = (onDOMContentLoaded (fresh_popup empty_storage))\<lparr>skill_input := [CHR 0xA0]\<rparr>"
proof -
  have c9: "userSkills (submitSkills
                         ([CHR 0xA0, CHR 0xC9] @ ''cole, '' @ [CHR 0xE9] @ ''cole'' @ [CHR 0xA0])
                         (onDOMContentLoaded (fresh_popup empty_storage)))
             = [CHR 0xE9 # ''cole'']"
    by code_simp
  have blank: "toLowerCase (trim [CHR 0xA0]) = []"
    by code_simp
  have c10: "submitSkills [CHR 0xA0] (onDOMContentLoaded (fresh_popup empty_storage))
             = (onDOMContentLoaded (fresh_popup empty_storage))\<lparr>skill_input := [CHR 0xA0]\<rparr>"
    by (simp add: submitSkills_def addSkills_def blank)
  let ?q = "submitSkills input p"
  have inv: "profile_inv ?q"
    using assms by (simp add: reachable_profile_inv profile_inv_submitSkills)
  have invr: "profile_inv (removeSkill s p)"
    using assms by (simp add: reachable_profile_inv profile_inv_removeSkill)
  have c1: "userSkills ?q =
           userSkills p
           @ first_occurrences (filter (\<lambda>e. e \<notin> set (userSkills p)) (entries input))"
    by (rule userSkills_submitSkills)
  have c2: "stored_userSkills (storage ?q) = Some (userSkills ?q)
            \<and> count_list (userSkills ?q) e = 1" if e: "e \<in> set (entries input)" for e
  proof
    have "trim input \<noteq> []"
      using e entries_empty_text [of input] by auto
    then show "stored_userSkills (storage ?q) = Some (userSkills ?q)"
      by (simp add: storage_submitSkills saveUserSkills_def)
    have "e \<in> set (userSkills ?q)"
      using e by (auto simp: c1)
    moreover have "distinct (userSkills ?q)"
      using inv by (simp add: profile_inv_def normalized_def)
    ultimately show "count_list (userSkills ?q) e = 1"
      by (simp add: distinct_count_list)
  qed
  have c3: "distinct (map toLowerCase (userSkills ?q))"
    using inv by (simp add: profile_inv_def normalized_case_insensitive)
  have c4: "distinct (map toLowerCase l)" if "stored_userSkills (storage ?q) = Some l" for l
    using inv that by (simp add: profile_inv_def normalized_case_insensitive)
  have c5: "distinct (map toLowerCase (userSkills (removeSkill s p)))"
    using invr by (simp add: profile_inv_def normalized_case_insensitive)
  have c6: "distinct (map toLowerCase l)"
    if "stored_userSkills (storage (removeSkill s p)) = Some l" for l
    using invr that by (simp add: profile_inv_def normalized_case_insensitive)
  have c7: "userSkills (submitSkills ''Python, SQL, python''
                         (onDOMContentLoaded (fresh_popup empty_storage)))
             = [''python'', ''sql'']"
    by code_simp
  have c8: "stored_userSkills
               (storage (submitSkills ''Python, SQL, python''
                           (onDOMContentLoaded (fresh_popup empty_storage))))
             = Some [''python'', ''sql'']"
    by code_simp
  show ?thesis
    using c1 c2 c3 c4 c5 c6 c7 c8 c9 c10 by blast
qed

theorem profile_add_witness:
  "userSkills (submitSkills ''Python, SQL, python''
                 (submitSkills ''sql'' (onDOMContentLoaded (fresh_popup empty_storage))))
   = [''sql'', ''python'']
   \<and> count_list
       (userSkills (submitSkills ''Python, SQL, python''
                      (submitSkills ''sql'' (onDOMContentLoaded (fresh_popup empty_storage)))))
       ''python'' = 1"
proof -
  let ?p = "submitSkills ''sql'' (onDOMContentLoaded (fresh_popup empty_storage))"
  have r: "reachable ?p"
    by (intro reachable.added reachable.opened)
  have old: "userSkills ?p = [''sql'']"
    by code_simp
  have en: "entries ''Python, SQL, python'' = [''python'', ''sql'', ''python'']"
    by code_simp
  have fo: "first_occurrences (filter (\<lambda>e. e \<notin> set [''sql'']) [''python'', ''sql'', ''python''])
            = [''python'']"
    by code_simp
  have mem: "''python'' \<in> set (entries ''Python, SQL, python'')"
    by (simp add: en)
  have "userSkills (submitSkills ''Python, SQL, python'' ?p)
          = userSkills ?p
            @ first_occurrences
                (filter (\<lambda>e. e \<notin> set (userSkills ?p)) (entries ''Python, SQL, python''))"
    using profile_add [OF r, of "''Python, SQL, python''"] by blast
  then have first: "userSkills (submitSkills ''Python, SQL, python'' ?p) = [''sql'', ''python'']"
    by (simp only: old en fo) simp
  have second: "count_list (userSkills (submitSkills ''Python, SQL, python'' ?p)) ''python'' = 1"
    using profile_add [OF r, of "''Python, SQL, python''"] mem by blast
  show ?thesis
    using first second by blast
qed

text \<open>
  C9. The click on a remove control changes the skill list in memory and leaves the
  persistent store as it was, so a popup opened afterwards loads the persisted list
  again: a skill that was removed from the list of a popup that can arise is back in it.
  Of the other operations, loading, the edit button and the analyze button leave the
  store alone; the save button and the add operation (unless the text is blank) write the
  list in memory to it.
\<close>

theorem remove_not_persisted:
  "storage (removeSkill s p) = storage p
   \<and> userSkills (onDOMContentLoaded (fresh_popup (storage (removeSkill s p))))
       = (case stored_userSkills (storage p) of Some l \<Rightarrow> l | None \<Rightarrow> [])
   \<and> (reachable p \<and> s \<in> set (userSkills p)
        \<longrightarrow> s \<notin> set (userSkills (removeSkill s p))
          \<and> s \<in> set (userSkills (onDOMContentLoaded (fresh_popup (storage (removeSkill s p))))))
   \<and> storage (onDOMContentLoaded p) = storage p
   \<and> storage (editProfileClick p) = storage p
   \<and> storage (fst (analyzeClick env p)) = storage p
   \<and> storage (saveProfileClick p) = saveUserSkills (userSkills p) (storage p)
   \<and> storage (submitSkills input p)
       = (if trim input = [] then storage p
          else saveUserSkills (userSkills (submitSkills input p)) (storage p))"
proof -
  have reloaded: "s \<in> set (userSkills (onDOMContentLoaded (fresh_popup (storage (removeSkill s p)))))"
    if "reachable p" and "s \<in> set (userSkills p)"
  proof -
    have "profile_inv p" using that(1) by (rule reachable_profile_inv)
    then show ?thesis
      using that(2)
      by (cases "stored_userSkills (storage p)")
        (auto simp: profile_inv_def removeSkill_frame onDOMContentLoaded_fresh list_all_iff)
  qed
  show ?thesis
    using reloaded
    by (simp add: removeSkill_frame onDOMContentLoaded_fresh storage_onDOMContentLoaded
        editProfileClick_frame analyzeClick_frame saveProfileClick_frame storage_submitSkills)
qed

theorem remove_not_persisted_witness:
  "userSkills (removeSkill ''sql''
                 (submitSkills ''python, sql'' (onDOMContentLoaded (fresh_popup empty_storage))))
   = [''python'']
   \<and> ''sql'' \<in> set (userSkills (onDOMContentLoaded (fresh_popup (storage
        (removeSkill ''sql''
           (submitSkills ''python, sql'' (onDOMContentLoaded (fresh_popup empty_storage))))))))"
proof -
  let ?p = "submitSkills ''python, sql'' (onDOMContentLoaded (fresh_popup empty_storage))"
  have r: "reachable ?p"
    by (intro reachable.added reachable.opened)
  have m: "userSkills ?p = [''python'', ''sql'']"
    by code_simp
  have rm: "userSkills (removeSkill ''sql'' ?p) = [''python'']"
    by (simp add: removeSkill_frame m)
  have "''sql'' \<in> set (userSkills ?p)"
    by (simp add: m)
  then have "''sql'' \<in> set (userSkills (onDOMContentLoaded (fresh_popup (storage
        (removeSkill ''sql'' ?p)))))"
    using remove_not_persisted [of "''sql''" ?p] r by blast
  then show ?thesis using rm by simp
qed

end
